theory Spec2Isabelle
  imports Complex_Main
begin

section \<open>CDL Grids: the page \<^verbatim>\<open>pages/index.tsx\<close>\<close>

text \<open>
  The page is one React module: the pure predicate \<^verbatim>\<open>isCorrectMatch\<close>, the cell
  component \<^verbatim>\<open>GuessCell\<close> with its submit handler, the grid \<^verbatim>\<open>GameGrid\<close> and the
  top-level component \<^verbatim>\<open>Home\<close> holding the session state. Component state
  (\<^verbatim>\<open>useState\<close>) is modelled as records that the handlers take and return; what a
  component renders is modelled as a value of a view datatype; a click is enabled only
  where the rendered view holds its button.
\<close>

subsection \<open>Numbers\<close>

text \<open>
  A JavaScript \<^verbatim>\<open>number\<close> is an IEEE double: a finite value (a rational), one of the two
  infinities, or NaN. The operator \<^verbatim>\<open>>\<close> on two doubles compares their exact values and
  is false as soon as one side is NaN; it involves no rounding.
\<close>

datatype number = Finite rat | PosInf | NegInf | NaN

fun gt :: "number \<Rightarrow> number \<Rightarrow> bool" where
  "gt NaN _ = False"
| "gt _ NaN = False"
| "gt (Finite a) (Finite b) = (b < a)"
| "gt PosInf PosInf = False"
| "gt PosInf _ = True"
| "gt NegInf _ = False"
| "gt (Finite a) PosInf = False"
| "gt (Finite a) NegInf = True"

text \<open>
  The literal \<^verbatim>\<open>1.1\<close> denotes the double nearest to 11/10, which is
  \<open>0x3FF199999999999A = 2476979795053773 / 2^51\<close>, slightly above 11/10.
\<close>

definition lit_1_1 :: number where
  "lit_1_1 = Finite (2476979795053773 / 2251799813685248)"

subsection \<open>Players and arrays\<close>

text \<open>
  The interface \<^verbatim>\<open>Player\<close>. The fields \<^verbatim>\<open>image\<close> and \<^verbatim>\<open>maps\<close> carry a suffix, as the
  library has constants of these names.
\<close>

record Player =
  name :: string
  image_p :: string
  teams :: "string list"
  roles :: "string list"
  kd :: number
  maps_p :: "string list"

text \<open>\<^verbatim>\<open>Array.prototype.includes\<close> on an array of strings.\<close>

definition array_includes :: "'a list \<Rightarrow> 'a \<Rightarrow> bool" where
  "array_includes xs x = (x \<in> set xs)"

text \<open>
  \<^verbatim>\<open>Array.prototype.slice(start, end)\<close> for non-negative arguments: the elements at
  the indices \<open>start \<le> i < min end length\<close>, none when \<open>end \<le> start\<close> or
  \<open>length \<le> start\<close>; it never raises.
\<close>

definition slice :: "'a list \<Rightarrow> nat \<Rightarrow> nat \<Rightarrow> 'a list" where
  "slice xs start end_p = take (end_p - start) (drop start xs)"

subsection \<open>The condition evaluator\<close>

text \<open>
  \<^verbatim>\<open>isCorrectMatch(p, condition)\<close>. The player argument may be \<^verbatim>\<open>null\<close> (the source
  tests \<^verbatim>\<open>!p\<close>), so it is an option; \<^verbatim>\<open>!condition\<close> holds of the empty string only.
  The chain of \<^verbatim>\<open>if\<close>s is kept in the source's order.
\<close>

definition isCorrectMatch :: "Player option \<Rightarrow> string \<Rightarrow> bool" where
  "isCorrectMatch po condition =
     (case po of
        None \<Rightarrow> False
      | Some p \<Rightarrow>
          if condition = [] then False
          else if condition = ''Played for OpTic'' then array_includes (teams p) ''OpTic''
          else if condition = ''Played for FaZe'' then array_includes (teams p) ''FaZe''
          else if condition = ''Used AR on Fortress''
            then array_includes (roles p) ''AR'' \<and> array_includes (maps_p p) ''Fortress''
          else if condition = ''K/D over 1.1'' then gt (kd p) lit_1_1
          else if condition = ''Played SMG on Embassy''
            then array_includes (roles p) ''SMG'' \<and> array_includes (maps_p p) ''Embassy''
          else if condition = ''Played on Hotel'' then array_includes (maps_p p) ''Hotel''
          else if condition = ''Flex Role on Expo''
            then array_includes (roles p) ''Flex'' \<and> array_includes (maps_p p) ''Expo''
          else if condition = ''Used SMG for NYSL''
            then array_includes (teams p) ''NYSL'' \<and> array_includes (roles p) ''SMG''
          else if condition = ''Played with Scump''
            then array_includes (teams p) ''OpTic'' \<and> name p \<noteq> ''Scump''
          else False)"

text \<open>The nine condition phrases the evaluator knows.\<close>

definition known_conditions :: "string list" where
  "known_conditions =
     [''Played for OpTic'', ''Played for FaZe'', ''Used AR on Fortress'', ''K/D over 1.1'',
      ''Played SMG on Embassy'', ''Played on Hotel'', ''Flex Role on Expo'',
      ''Used SMG for NYSL'', ''Played with Scump'']"

subsection \<open>Strings\<close>

text \<open>
  A JavaScript string is a sequence of UTF-16 code units. A \<open>string\<close> here is the list
  of the bytes of its UTF-8 encoding, which determines the JavaScript string: a literal
  of ASCII characters is itself, the letter U+00C9 (capital E with acute accent) is the
  two bytes C3 89, a code point above U+FFFF (a surrogate pair) is four bytes, and a
  surrogate that is not part of a pair is written in the three-byte form. \<^verbatim>\<open>===\<close> on
  strings is equality of the byte lists. Code points and bytes are integers.

  \<^verbatim>\<open>String.prototype.toLowerCase\<close> reads the string as code points, maps each code
  point by the Unicode Default Case Conversion (the lowercase mappings of
  UnicodeData.txt and the two mappings of SpecialCasing.txt that depend on no language:
  capital sigma in final position, and capital I with dot above), and writes the code
  points back. The tables below are those of Unicode 14.0.
\<close>

text \<open>
  The code points of a byte list. A byte that starts no well-formed sequence (no
  JavaScript string has one) is kept as it is.
\<close>

datatype item = Scalar int | Stray int

definition continuation :: "int \<Rightarrow> bool" where
  "continuation b = (128 \<le> b \<and> b < 192)"

definition decode_sequence :: "int \<Rightarrow> int list \<Rightarrow> (int \<times> nat) option" where
  "decode_sequence b0 bs =
     (if 194 \<le> b0 \<and> b0 < 224 then
        (case bs of
           b1 # r \<Rightarrow>
             if continuation b1 then Some ((b0 - 192) * 64 + (b1 - 128), 1) else None
         | [] \<Rightarrow> None)
      else if 224 \<le> b0 \<and> b0 < 240 then
        (case bs of
           b1 # b2 # r \<Rightarrow>
             (let cp = (b0 - 224) * 4096 + (b1 - 128) * 64 + (b2 - 128)
              in if continuation b1 \<and> continuation b2 \<and> 2048 \<le> cp then Some (cp, 2) else None)
         | _ \<Rightarrow> None)
      else if 240 \<le> b0 \<and> b0 < 245 then
        (case bs of
           b1 # b2 # b3 # r \<Rightarrow>
             (let cp = (b0 - 240) * 262144 + (b1 - 128) * 4096 + (b2 - 128) * 64 + (b3 - 128)
              in if continuation b1 \<and> continuation b2 \<and> continuation b3 \<and>
                    65536 \<le> cp \<and> cp \<le> 1114111
                 then Some (cp, 3) else None)
         | _ \<Rightarrow> None)
      else None)"

fun utf8_decode :: "int list \<Rightarrow> item list" where
  "utf8_decode [] = []"
| "utf8_decode (b0 # bs) =
     (if b0 < 128 then Scalar b0 # utf8_decode bs
      else (case decode_sequence b0 bs of
              Some (cp, n) \<Rightarrow> Scalar cp # utf8_decode (drop n bs)
            | None \<Rightarrow> Stray b0 # utf8_decode bs))"

fun encode_item :: "item \<Rightarrow> int list" where
  "encode_item (Stray b) = [b]"
| "encode_item (Scalar cp) =
     (if cp < 128 then [cp]
      else if cp < 2048 then [192 + cp div 64, 128 + cp mod 64]
      else if cp < 65536 then [224 + cp div 4096, 128 + cp div 64 mod 64, 128 + cp mod 64]
      else [240 + cp div 262144, 128 + cp div 4096 mod 64, 128 + cp div 64 mod 64,
            128 + cp mod 64])"

definition utf8_encode :: "item list \<Rightarrow> int list" where
  "utf8_encode xs = concat (map encode_item xs)"

text \<open>
  The simple lowercase mappings: an entry \<open>(lo, hi, stride, to)\<close> maps the code points
  \<open>lo, lo + stride, \<dots>\<close> up to \<open>hi\<close> to \<open>to, to + stride, \<dots>\<close>; the entries are in
  the order of \<open>lo\<close>. Every other code point is mapped to itself.
\<close>

definition lowercase_ranges :: "(int \<times> int \<times> int \<times> int) list" where
  "lowercase_ranges =
     [
      (65, 90, 1, 97), (192, 214, 1, 224), (216, 222, 1, 248), (256, 302, 2, 257),
      (306, 310, 2, 307), (313, 327, 2, 314), (330, 374, 2, 331), (376, 376, 1, 255),
      (377, 381, 2, 378), (385, 385, 1, 595), (386, 388, 2, 387), (390, 390, 1, 596),
      (391, 391, 1, 392), (393, 394, 1, 598), (395, 395, 1, 396), (398, 398, 1, 477),
      (399, 399, 1, 601), (400, 400, 1, 603), (401, 401, 1, 402), (403, 403, 1, 608),
      (404, 404, 1, 611), (406, 406, 1, 617), (407, 407, 1, 616), (408, 408, 1, 409),
      (412, 412, 1, 623), (413, 413, 1, 626), (415, 415, 1, 629), (416, 420, 2, 417),
      (422, 422, 1, 640), (423, 423, 1, 424), (425, 425, 1, 643), (428, 428, 1, 429),
      (430, 430, 1, 648), (431, 431, 1, 432), (433, 434, 1, 650), (435, 437, 2, 436),
      (439, 439, 1, 658), (440, 440, 1, 441), (444, 444, 1, 445), (452, 452, 1, 454),
      (453, 453, 1, 454), (455, 455, 1, 457), (456, 456, 1, 457), (458, 458, 1, 460),
      (459, 475, 2, 460), (478, 494, 2, 479), (497, 497, 1, 499), (498, 500, 2, 499),
      (502, 502, 1, 405), (503, 503, 1, 447), (504, 542, 2, 505), (544, 544, 1, 414),
      (546, 562, 2, 547), (570, 570, 1, 11365), (571, 571, 1, 572), (573, 573, 1, 410),
      (574, 574, 1, 11366), (577, 577, 1, 578), (579, 579, 1, 384), (580, 580, 1, 649),
      (581, 581, 1, 652), (582, 590, 2, 583), (880, 882, 2, 881), (886, 886, 1, 887),
      (895, 895, 1, 1011), (902, 902, 1, 940), (904, 906, 1, 941), (908, 908, 1, 972),
      (910, 911, 1, 973), (913, 929, 1, 945), (931, 939, 1, 963), (975, 975, 1, 983),
      (984, 1006, 2, 985), (1012, 1012, 1, 952), (1015, 1015, 1, 1016), (1017, 1017, 1, 1010),
      (1018, 1018, 1, 1019), (1021, 1023, 1, 891), (1024, 1039, 1, 1104),
      (1040, 1071, 1, 1072), (1120, 1152, 2, 1121), (1162, 1214, 2, 1163),
      (1216, 1216, 1, 1231), (1217, 1229, 2, 1218), (1232, 1326, 2, 1233),
      (1329, 1366, 1, 1377), (4256, 4293, 1, 11520), (4295, 4295, 1, 11559),
      (4301, 4301, 1, 11565), (5024, 5103, 1, 43888), (5104, 5109, 1, 5112),
      (7312, 7354, 1, 4304), (7357, 7359, 1, 4349), (7680, 7828, 2, 7681),
      (7838, 7838, 1, 223), (7840, 7934, 2, 7841), (7944, 7951, 1, 7936),
      (7960, 7965, 1, 7952), (7976, 7983, 1, 7968), (7992, 7999, 1, 7984),
      (8008, 8013, 1, 8000), (8025, 8031, 2, 8017), (8040, 8047, 1, 8032),
      (8072, 8079, 1, 8064), (8088, 8095, 1, 8080), (8104, 8111, 1, 8096),
      (8120, 8121, 1, 8112), (8122, 8123, 1, 8048), (8124, 8124, 1, 8115),
      (8136, 8139, 1, 8050), (8140, 8140, 1, 8131), (8152, 8153, 1, 8144),
      (8154, 8155, 1, 8054), (8168, 8169, 1, 8160), (8170, 8171, 1, 8058),
      (8172, 8172, 1, 8165), (8184, 8185, 1, 8056), (8186, 8187, 1, 8060),
      (8188, 8188, 1, 8179), (8486, 8486, 1, 969), (8490, 8490, 1, 107), (8491, 8491, 1, 229),
      (8498, 8498, 1, 8526), (8544, 8559, 1, 8560), (8579, 8579, 1, 8580),
      (9398, 9423, 1, 9424), (11264, 11311, 1, 11312), (11360, 11360, 1, 11361),
      (11362, 11362, 1, 619), (11363, 11363, 1, 7549), (11364, 11364, 1, 637),
      (11367, 11371, 2, 11368), (11373, 11373, 1, 593), (11374, 11374, 1, 625),
      (11375, 11375, 1, 592), (11376, 11376, 1, 594), (11378, 11378, 1, 11379),
      (11381, 11381, 1, 11382), (11390, 11391, 1, 575), (11392, 11490, 2, 11393),
      (11499, 11501, 2, 11500), (11506, 11506, 1, 11507), (42560, 42604, 2, 42561),
      (42624, 42650, 2, 42625), (42786, 42798, 2, 42787), (42802, 42862, 2, 42803),
      (42873, 42875, 2, 42874), (42877, 42877, 1, 7545), (42878, 42886, 2, 42879),
      (42891, 42891, 1, 42892), (42893, 42893, 1, 613), (42896, 42898, 2, 42897),
      (42902, 42920, 2, 42903), (42922, 42922, 1, 614), (42923, 42923, 1, 604),
      (42924, 42924, 1, 609), (42925, 42925, 1, 620), (42926, 42926, 1, 618),
      (42928, 42928, 1, 670), (42929, 42929, 1, 647), (42930, 42930, 1, 669),
      (42931, 42931, 1, 43859), (42932, 42946, 2, 42933), (42948, 42948, 1, 42900),
      (42949, 42949, 1, 642), (42950, 42950, 1, 7566), (42951, 42953, 2, 42952),
      (42960, 42960, 1, 42961), (42966, 42968, 2, 42967), (42997, 42997, 1, 42998),
      (65313, 65338, 1, 65345), (66560, 66599, 1, 66600), (66736, 66771, 1, 66776),
      (66928, 66964, 2, 66967), (66929, 66938, 1, 66968), (66941, 66954, 1, 66980),
      (66957, 66962, 1, 66996), (66965, 66965, 1, 67004), (68736, 68786, 1, 68800),
      (71840, 71871, 1, 71872), (93760, 93791, 1, 93792), (125184, 125217, 1, 125218)]"

fun simple_lowercase_in :: "(int \<times> int \<times> int \<times> int) list \<Rightarrow> int \<Rightarrow> int" where
  "simple_lowercase_in [] cp = cp"
| "simple_lowercase_in ((lo, hi, stride, to) # rs) cp =
     (if cp < lo then cp
      else if cp \<le> hi \<and> (cp - lo) mod stride = 0 then to + (cp - lo)
      else simple_lowercase_in rs cp)"

definition simple_lowercase :: "int \<Rightarrow> int" where
  "simple_lowercase cp = simple_lowercase_in lowercase_ranges cp"

text \<open>
  The code points with the property Cased and those with the property Case_Ignorable, as
  ranges in increasing order. They decide whether a capital sigma is in final position.
\<close>

definition Cased_ranges :: "(int \<times> int) list" where
  "Cased_ranges =
     [
      (65, 90), (97, 122), (170, 170), (181, 181), (186, 186), (192, 214), (216, 246),
      (248, 442), (444, 447), (452, 659), (661, 696), (704, 705), (736, 740), (837, 837),
      (880, 883), (886, 887), (890, 893), (895, 895), (902, 902), (904, 906), (908, 908),
      (910, 929), (931, 1013), (1015, 1153), (1162, 1327), (1329, 1366), (1376, 1416),
      (4256, 4293), (4295, 4295), (4301, 4301), (4304, 4346), (4349, 4351), (5024, 5109),
      (5112, 5117), (7296, 7304), (7312, 7354), (7357, 7359), (7424, 7615), (7680, 7957),
      (7960, 7965), (7968, 8005), (8008, 8013), (8016, 8023), (8025, 8025), (8027, 8027),
      (8029, 8029), (8031, 8061), (8064, 8116), (8118, 8124), (8126, 8126), (8130, 8132),
      (8134, 8140), (8144, 8147), (8150, 8155), (8160, 8172), (8178, 8180), (8182, 8188),
      (8305, 8305), (8319, 8319), (8336, 8348), (8450, 8450), (8455, 8455), (8458, 8467),
      (8469, 8469), (8473, 8477), (8484, 8484), (8486, 8486), (8488, 8488), (8490, 8493),
      (8495, 8500), (8505, 8505), (8508, 8511), (8517, 8521), (8526, 8526), (8544, 8575),
      (8579, 8580), (9398, 9449), (11264, 11492), (11499, 11502), (11506, 11507),
      (11520, 11557), (11559, 11559), (11565, 11565), (42560, 42605), (42624, 42653),
      (42786, 42887), (42891, 42894), (42896, 42954), (42960, 42961), (42963, 42963),
      (42965, 42969), (42997, 42998), (43000, 43002), (43824, 43866), (43868, 43880),
      (43888, 43967), (64256, 64262), (64275, 64279), (65313, 65338), (65345, 65370),
      (66560, 66639), (66736, 66771), (66776, 66811), (66928, 66938), (66940, 66954),
      (66956, 66962), (66964, 66965), (66967, 66977), (66979, 66993), (66995, 67001),
      (67003, 67004), (67456, 67456), (67459, 67461), (67463, 67504), (67506, 67514),
      (68736, 68786), (68800, 68850), (71840, 71903), (93760, 93823), (119808, 119892),
      (119894, 119964), (119966, 119967), (119970, 119970), (119973, 119974), (119977, 119980),
      (119982, 119993), (119995, 119995), (119997, 120003), (120005, 120069), (120071, 120074),
      (120077, 120084), (120086, 120092), (120094, 120121), (120123, 120126), (120128, 120132),
      (120134, 120134), (120138, 120144), (120146, 120485), (120488, 120512), (120514, 120538),
      (120540, 120570), (120572, 120596), (120598, 120628), (120630, 120654), (120656, 120686),
      (120688, 120712), (120714, 120744), (120746, 120770), (120772, 120779), (122624, 122633),
      (122635, 122654), (125184, 125251), (127280, 127305), (127312, 127337), (127344, 127369)]"

definition Case_Ignorable_ranges :: "(int \<times> int) list" where
  "Case_Ignorable_ranges =
     [
      (39, 39), (46, 46), (58, 58), (94, 94), (96, 96), (168, 168), (173, 173), (175, 175),
      (180, 180), (183, 184), (688, 879), (884, 885), (890, 890), (900, 901), (903, 903),
      (1155, 1161), (1369, 1369), (1375, 1375), (1425, 1469), (1471, 1471), (1473, 1474),
      (1476, 1477), (1479, 1479), (1524, 1524), (1536, 1541), (1552, 1562), (1564, 1564),
      (1600, 1600), (1611, 1631), (1648, 1648), (1750, 1757), (1759, 1768), (1770, 1773),
      (1807, 1807), (1809, 1809), (1840, 1866), (1958, 1968), (2027, 2037), (2042, 2042),
      (2045, 2045), (2070, 2093), (2137, 2139), (2184, 2184), (2192, 2193), (2200, 2207),
      (2249, 2306), (2362, 2362), (2364, 2364), (2369, 2376), (2381, 2381), (2385, 2391),
      (2402, 2403), (2417, 2417), (2433, 2433), (2492, 2492), (2497, 2500), (2509, 2509),
      (2530, 2531), (2558, 2558), (2561, 2562), (2620, 2620), (2625, 2626), (2631, 2632),
      (2635, 2637), (2641, 2641), (2672, 2673), (2677, 2677), (2689, 2690), (2748, 2748),
      (2753, 2757), (2759, 2760), (2765, 2765), (2786, 2787), (2810, 2815), (2817, 2817),
      (2876, 2876), (2879, 2879), (2881, 2884), (2893, 2893), (2901, 2902), (2914, 2915),
      (2946, 2946), (3008, 3008), (3021, 3021), (3072, 3072), (3076, 3076), (3132, 3132),
      (3134, 3136), (3142, 3144), (3146, 3149), (3157, 3158), (3170, 3171), (3201, 3201),
      (3260, 3260), (3263, 3263), (3270, 3270), (3276, 3277), (3298, 3299), (3328, 3329),
      (3387, 3388), (3393, 3396), (3405, 3405), (3426, 3427), (3457, 3457), (3530, 3530),
      (3538, 3540), (3542, 3542), (3633, 3633), (3636, 3642), (3654, 3662), (3761, 3761),
      (3764, 3772), (3782, 3782), (3784, 3789), (3864, 3865), (3893, 3893), (3895, 3895),
      (3897, 3897), (3953, 3966), (3968, 3972), (3974, 3975), (3981, 3991), (3993, 4028),
      (4038, 4038), (4141, 4144), (4146, 4151), (4153, 4154), (4157, 4158), (4184, 4185),
      (4190, 4192), (4209, 4212), (4226, 4226), (4229, 4230), (4237, 4237), (4253, 4253),
      (4348, 4348), (4957, 4959), (5906, 5908), (5938, 5939), (5970, 5971), (6002, 6003),
      (6068, 6069), (6071, 6077), (6086, 6086), (6089, 6099), (6103, 6103), (6109, 6109),
      (6155, 6159), (6211, 6211), (6277, 6278), (6313, 6313), (6432, 6434), (6439, 6440),
      (6450, 6450), (6457, 6459), (6679, 6680), (6683, 6683), (6742, 6742), (6744, 6750),
      (6752, 6752), (6754, 6754), (6757, 6764), (6771, 6780), (6783, 6783), (6823, 6823),
      (6832, 6862), (6912, 6915), (6964, 6964), (6966, 6970), (6972, 6972), (6978, 6978),
      (7019, 7027), (7040, 7041), (7074, 7077), (7080, 7081), (7083, 7085), (7142, 7142),
      (7144, 7145), (7149, 7149), (7151, 7153), (7212, 7219), (7222, 7223), (7288, 7293),
      (7376, 7378), (7380, 7392), (7394, 7400), (7405, 7405), (7412, 7412), (7416, 7417),
      (7468, 7530), (7544, 7544), (7579, 7679), (8125, 8125), (8127, 8129), (8141, 8143),
      (8157, 8159), (8173, 8175), (8189, 8190), (8203, 8207), (8216, 8217), (8228, 8228),
      (8231, 8231), (8234, 8238), (8288, 8292), (8294, 8303), (8305, 8305), (8319, 8319),
      (8336, 8348), (8400, 8432), (11388, 11389), (11503, 11505), (11631, 11631),
      (11647, 11647), (11744, 11775), (11823, 11823), (12293, 12293), (12330, 12333),
      (12337, 12341), (12347, 12347), (12441, 12446), (12540, 12542), (40981, 40981),
      (42232, 42237), (42508, 42508), (42607, 42610), (42612, 42621), (42623, 42623),
      (42652, 42655), (42736, 42737), (42752, 42785), (42864, 42864), (42888, 42890),
      (42994, 42996), (43000, 43001), (43010, 43010), (43014, 43014), (43019, 43019),
      (43045, 43046), (43052, 43052), (43204, 43205), (43232, 43249), (43263, 43263),
      (43302, 43309), (43335, 43345), (43392, 43394), (43443, 43443), (43446, 43449),
      (43452, 43453), (43471, 43471), (43493, 43494), (43561, 43566), (43569, 43570),
      (43573, 43574), (43587, 43587), (43596, 43596), (43632, 43632), (43644, 43644),
      (43696, 43696), (43698, 43700), (43703, 43704), (43710, 43711), (43713, 43713),
      (43741, 43741), (43756, 43757), (43763, 43764), (43766, 43766), (43867, 43871),
      (43881, 43883), (44005, 44005), (44008, 44008), (44013, 44013), (64286, 64286),
      (64434, 64450), (65024, 65039), (65043, 65043), (65056, 65071), (65106, 65106),
      (65109, 65109), (65279, 65279), (65287, 65287), (65294, 65294), (65306, 65306),
      (65342, 65342), (65344, 65344), (65392, 65392), (65438, 65439), (65507, 65507),
      (65529, 65531), (66045, 66045), (66272, 66272), (66422, 66426), (67456, 67461),
      (67463, 67504), (67506, 67514), (68097, 68099), (68101, 68102), (68108, 68111),
      (68152, 68154), (68159, 68159), (68325, 68326), (68900, 68903), (69291, 69292),
      (69446, 69456), (69506, 69509), (69633, 69633), (69688, 69702), (69744, 69744),
      (69747, 69748), (69759, 69761), (69811, 69814), (69817, 69818), (69821, 69821),
      (69826, 69826), (69837, 69837), (69888, 69890), (69927, 69931), (69933, 69940),
      (70003, 70003), (70016, 70017), (70070, 70078), (70089, 70092), (70095, 70095),
      (70191, 70193), (70196, 70196), (70198, 70199), (70206, 70206), (70367, 70367),
      (70371, 70378), (70400, 70401), (70459, 70460), (70464, 70464), (70502, 70508),
      (70512, 70516), (70712, 70719), (70722, 70724), (70726, 70726), (70750, 70750),
      (70835, 70840), (70842, 70842), (70847, 70848), (70850, 70851), (71090, 71093),
      (71100, 71101), (71103, 71104), (71132, 71133), (71219, 71226), (71229, 71229),
      (71231, 71232), (71339, 71339), (71341, 71341), (71344, 71349), (71351, 71351),
      (71453, 71455), (71458, 71461), (71463, 71467), (71727, 71735), (71737, 71738),
      (71995, 71996), (71998, 71998), (72003, 72003), (72148, 72151), (72154, 72155),
      (72160, 72160), (72193, 72202), (72243, 72248), (72251, 72254), (72263, 72263),
      (72273, 72278), (72281, 72283), (72330, 72342), (72344, 72345), (72752, 72758),
      (72760, 72765), (72767, 72767), (72850, 72871), (72874, 72880), (72882, 72883),
      (72885, 72886), (73009, 73014), (73018, 73018), (73020, 73021), (73023, 73029),
      (73031, 73031), (73104, 73105), (73109, 73109), (73111, 73111), (73459, 73460),
      (78896, 78904), (92912, 92916), (92976, 92982), (92992, 92995), (94031, 94031),
      (94095, 94111), (94176, 94177), (94179, 94180), (110576, 110579), (110581, 110587),
      (110589, 110590), (113821, 113822), (113824, 113827), (118528, 118573), (118576, 118598),
      (119143, 119145), (119155, 119170), (119173, 119179), (119210, 119213), (119362, 119364),
      (121344, 121398), (121403, 121452), (121461, 121461), (121476, 121476), (121499, 121503),
      (121505, 121519), (122880, 122886), (122888, 122904), (122907, 122913), (122915, 122916),
      (122918, 122922), (123184, 123197), (123566, 123566), (123628, 123631), (125136, 125142),
      (125252, 125259), (127995, 127999), (917505, 917505), (917536, 917631), (917760, 917999)]"

fun in_ranges :: "(int \<times> int) list \<Rightarrow> int \<Rightarrow> bool" where
  "in_ranges [] cp = False"
| "in_ranges ((lo, hi) # rs) cp =
     (if cp < lo then False else if cp \<le> hi then True else in_ranges rs cp)"

fun cased :: "item \<Rightarrow> bool" where
  "cased (Scalar cp) = in_ranges Cased_ranges cp"
| "cased (Stray b) = False"

fun case_ignorable :: "item \<Rightarrow> bool" where
  "case_ignorable (Scalar cp) = in_ranges Case_Ignorable_ranges cp"
| "case_ignorable (Stray b) = False"

text \<open>
  Going away from a sigma, in either direction: the first item that is not
  case-ignorable is cased.
\<close>

fun meets_cased :: "item list \<Rightarrow> bool" where
  "meets_cased [] = False"
| "meets_cased (x # xs) = (if case_ignorable x then meets_cased xs else cased x)"

text \<open>
  The mapping of one item, given the items before it (the nearest first) and after it.
  U+03A3, capital sigma, becomes U+03C2 in final position, after a cased letter and
  not before one, and U+03C3 elsewhere; U+0130, capital I with dot above, becomes
  U+0069 U+0307.
\<close>

fun Lowercase_Mapping :: "item list \<Rightarrow> item \<Rightarrow> item list \<Rightarrow> item list" where
  "Lowercase_Mapping pre (Stray b) post = [Stray b]"
| "Lowercase_Mapping pre (Scalar cp) post =
     (if cp = 931 then
        (if meets_cased pre \<and> \<not> meets_cased post then [Scalar 962] else [Scalar 963])
      else if cp = 304 then [Scalar 105, Scalar 775]
      else [Scalar (simple_lowercase cp)])"

fun toLowercase :: "item list \<Rightarrow> item list \<Rightarrow> item list" where
  "toLowercase pre [] = []"
| "toLowercase pre (x # post) =
     Lowercase_Mapping pre x post @ toLowercase (x # pre) post"

definition toLowerCase :: "string \<Rightarrow> string" where
  "toLowerCase s = map char_of (utf8_encode (toLowercase [] (utf8_decode (map of_char s))))"

text \<open>
  On strings of ASCII characters lower-casing maps the letters A to Z to a to z and
  nothing else (lemma \<open>toLowerCase_ascii\<close> below): equality of two such strings after
  \<^verbatim>\<open>toLowerCase\<close> is equality up to the case of these letters.
\<close>

definition ascii :: "string \<Rightarrow> bool" where
  "ascii s = list_all (\<lambda>c. (of_char c :: int) < 128) s"

definition ascii_lowercase :: "int \<Rightarrow> int" where
  "ascii_lowercase n = (if 65 \<le> n \<and> n \<le> 90 then n + 32 else n)"

definition ascii_lower :: "string \<Rightarrow> string" where
  "ascii_lower s = map (\<lambda>c. char_of (ascii_lowercase (of_char c))) s"

subsection \<open>A cell: the component \<^verbatim>\<open>GuessCell\<close>\<close>

text \<open>The three \<^verbatim>\<open>useState\<close> hooks of a cell, with their initial values.\<close>

datatype outcome = correct | wrong

record GuessCell =
  guess :: string
  result :: "outcome option"
  player :: "Player option"

definition GuessCell_init :: GuessCell where
  "GuessCell_init = \<lparr>guess = [], result = None, player = None\<rparr>"

text \<open>
  \<^verbatim>\<open>handleGuess\<close>, the click handler of the Submit button. It reads the props
  \<^verbatim>\<open>row\<close>, \<^verbatim>\<open>col\<close>, \<^verbatim>\<open>players\<close> and \<^verbatim>\<open>onStrike\<close>; it updates the cell's own state and,
  through the callback \<^verbatim>\<open>onStrike\<close>, the state \<open>st\<close> of whoever owns the callback.
  \<^verbatim>\<open>players.find\<close> returns the first player whose predicate holds, or \<^verbatim>\<open>undefined\<close>.
\<close>

definition handleGuess ::
  "string \<Rightarrow> string \<Rightarrow> Player list \<Rightarrow> ('s \<Rightarrow> 's) \<Rightarrow> GuessCell \<times> 's \<Rightarrow> GuessCell \<times> 's" where
  "handleGuess row col ps onStrike cs =
     (case cs of (cell, st) \<Rightarrow>
        (case find (\<lambda>p. toLowerCase (name p) = toLowerCase (guess cell)) ps of
           None \<Rightarrow> (cell, st)
         | Some found \<Rightarrow>
             (let valid = (isCorrectMatch (Some found) row \<and> isCorrectMatch (Some found) col)
              in (cell\<lparr>result := Some (if valid then correct else wrong), player := Some found\<rparr>,
                  if \<not> valid then onStrike st else st))))"

text \<open>
  What a cell renders: the text input with the Submit button while \<^verbatim>\<open>player\<close> is
  \<^verbatim>\<open>null\<close>, the card of the resolved player afterwards.
\<close>

datatype CellView = InputAndSubmit string | GuessCard Player bool

definition GuessCell_view :: "GuessCell \<Rightarrow> CellView" where
  "GuessCell_view cell =
     (case player cell of
        None \<Rightarrow> InputAndSubmit (guess cell)
      | Some p \<Rightarrow> GuessCard p (result cell = Some correct))"

subsection \<open>The grid: the component \<^verbatim>\<open>GameGrid\<close>\<close>

text \<open>
  The grid renders the column labels, then for each row its label and one cell per
  column; the cell of row \<open>i\<close> and column \<open>j\<close> has the key \<open>i-j\<close>, and \<open>cells\<close>
  gives the state of the cell with a given key.
\<close>

record GridView =
  columns :: nat
  header :: "string list"
  body :: "(string \<times> CellView list) list"

definition GameGrid :: "(nat \<times> nat \<Rightarrow> GuessCell) \<Rightarrow> string list \<Rightarrow> string list \<Rightarrow> GridView" where
  "GameGrid cells rows cols =
     \<lparr>columns = length cols + 1,
      header = cols,
      body = map (\<lambda>(i, r). (r, map (\<lambda>(j, c). GuessCell_view (cells (i, j))) (enumerate 0 cols)))
               (enumerate 0 rows)\<rparr>"

subsection \<open>The session: the component \<^verbatim>\<open>Home\<close>\<close>

datatype Mode = easy | hard

record Home =
  players :: "Player list"
  categories :: "string list"
  mode :: "Mode option"
  strikes :: nat

definition Home_init :: Home where
  "Home_init = \<lparr>players = [], categories = [], mode = None, strikes = 0\<rparr>"

definition resetGame :: "Home \<Rightarrow> Home" where
  "resetGame h = h\<lparr>mode := None, strikes := 0\<rparr>"

definition handleStrike :: "Home \<Rightarrow> Home" where
  "handleStrike h = h\<lparr>strikes := strikes h + 1\<rparr>"

text \<open>
  The three derived constants \<^verbatim>\<open>size\<close> (here \<open>grid_size\<close>), \<^verbatim>\<open>rows\<close> and \<^verbatim>\<open>cols\<close> of a
  render. The size is 3 for \<^verbatim>\<open>'easy'\<close> and 5 for every other value of \<^verbatim>\<open>mode\<close>.
\<close>

definition grid_size :: "Home \<Rightarrow> nat" where
  "grid_size h = (if mode h = Some easy then 3 else 5)"

definition rows :: "Home \<Rightarrow> string list" where
  "rows h = slice (categories h) 0 (grid_size h)"

definition cols :: "Home \<Rightarrow> string list" where
  "cols h = slice (categories h) (grid_size h) (grid_size h * 2)"

text \<open>
  What the page renders: the difficulty screen while \<^verbatim>\<open>mode\<close> is \<^verbatim>\<open>null\<close>; otherwise
  the header (mode, strikes, the New Game button) above either the end-of-game message
  or the grid.
\<close>

datatype Section = GameOver | Grid GridView

datatype Screen = ChooseDifficulty | Game Mode nat Section

definition Home_view :: "Home \<Rightarrow> (nat \<times> nat \<Rightarrow> GuessCell) \<Rightarrow> Screen" where
  "Home_view h cells =
     (case mode h of
        None \<Rightarrow> ChooseDifficulty
      | Some m \<Rightarrow>
          Game m (strikes h)
            (if 3 \<le> strikes h then GameOver else Grid (GameGrid cells (rows h) (cols h))))"

subsection \<open>The running page\<close>

text \<open>
  The page's whole state: the state of \<^verbatim>\<open>Home\<close>, the state of the cell rendered under
  each key, and the number of requests to \<^verbatim>\<open>/api/players\<close> and \<^verbatim>\<open>/api/categories\<close>
  that have been sent and have not been answered.
\<close>

record App =
  home :: Home
  cells :: "nat \<times> nat \<Rightarrow> GuessCell"
  pendingPlayers :: nat
  pendingCategories :: nat

definition App_init :: App where
  "App_init =
     \<lparr>home = Home_init, cells = (\<lambda>k. GuessCell_init), pendingPlayers = 0, pendingCategories = 0\<rparr>"

text \<open>
  What can happen to the page: a click on one of the two difficulty buttons, a click on
  New Game, typing into the input of the cell \<open>i-j\<close>, a click on its Submit button, and
  the answer to a pending request.
\<close>

datatype Event =
    ChooseMode Mode
  | NewGame
  | Change nat nat string
  | Submit nat nat
  | PlayersLoaded "Player list"
  | CategoriesLoaded "string list"

text \<open>The cell rendered at row \<open>i\<close>, column \<open>j\<close> of a screen, if there is one.\<close>

fun cell_at :: "Screen \<Rightarrow> nat \<Rightarrow> nat \<Rightarrow> CellView option" where
  "cell_at (Game m n (Grid g)) i j =
     (if i < length (body g)
      then (if j < length (snd (body g ! i)) then Some (snd (body g ! i) ! j) else None)
      else None)"
| "cell_at (Game m n GameOver) i j = None"
| "cell_at ChooseDifficulty i j = None"

fun has_input :: "CellView option \<Rightarrow> bool" where
  "has_input (Some (InputAndSubmit t)) = True"
| "has_input (Some (GuessCard p c)) = False"
| "has_input None = False"

text \<open>
  The user can only act on a control that the current screen holds: the difficulty
  buttons are on the difficulty screen, New Game is in the header, the input and
  the Submit button belong to a rendered cell that is not resolved.
\<close>

fun offers :: "Screen \<Rightarrow> Event \<Rightarrow> bool" where
  "offers v (ChooseMode m) = (v = ChooseDifficulty)"
| "offers v NewGame = (v \<noteq> ChooseDifficulty)"
| "offers v (Change i j t) = has_input (cell_at v i j)"
| "offers v (Submit i j) = has_input (cell_at v i j)"
| "offers v (PlayersLoaded ps) = False"
| "offers v (CategoriesLoaded cs) = False"

text \<open>
  The keys of the cells that a render with the state \<open>h\<close> holds: the page shows the
  grid, and the grid has the row and the column.
\<close>

definition mounted :: "Home \<Rightarrow> nat \<times> nat \<Rightarrow> bool" where
  "mounted h k =
     (mode h \<noteq> None \<and> \<not> 3 \<le> strikes h \<and> fst k < length (rows h) \<and> snd k < length (cols h))"

text \<open>
  React commits the state a handler has set and renders again before the next event is
  handled. A cell that is no longer rendered is unmounted and its state is lost: a cell
  mounted later under the same key starts from the initial values. The effect of
  \<^verbatim>\<open>Home\<close> runs after a commit that changed \<^verbatim>\<open>mode\<close> and, when the new mode is not
  \<^verbatim>\<open>null\<close>, sends the two requests.
\<close>

definition commit :: "App \<Rightarrow> Home \<Rightarrow> (nat \<times> nat \<Rightarrow> GuessCell) \<Rightarrow> App" where
  "commit a h' cs' =
     (let sent = (if mode h' \<noteq> mode (home a) \<and> mode h' \<noteq> None then 1 else 0)
      in \<lparr>home = h',
          cells = (\<lambda>k. if mounted h' k then cs' k else GuessCell_init),
          pendingPlayers = pendingPlayers a + sent,
          pendingCategories = pendingCategories a + sent\<rparr>)"

text \<open>
  What an event does: the handler of the control (or \<^verbatim>\<open>setPlayers\<close>, \<^verbatim>\<open>setCategories\<close>
  for an answer), then the commit. The cell \<open>i-j\<close> has the props \<^verbatim>\<open>row\<close> and \<^verbatim>\<open>col\<close> of
  its render, the labels at the indices \<open>i\<close> and \<open>j\<close>, which exist where the cell is
  rendered; \<open>handle\<close> is only meant where the event is possible.
\<close>

fun handle :: "App \<Rightarrow> Event \<Rightarrow> App" where
  "handle a (ChooseMode m) = commit a ((home a)\<lparr>mode := Some m\<rparr>) (cells a)"
| "handle a NewGame = commit a (resetGame (home a)) (cells a)"
| "handle a (Change i j t) =
     commit a (home a) ((cells a)((i, j) := (cells a (i, j))\<lparr>guess := t\<rparr>))"
| "handle a (Submit i j) =
     (case handleGuess (rows (home a) ! i) (cols (home a) ! j) (players (home a)) handleStrike
             (cells a (i, j), home a) of
        (cell', h') \<Rightarrow> commit a h' ((cells a)((i, j) := cell')))"
| "handle a (PlayersLoaded ps) =
     (commit a ((home a)\<lparr>players := ps\<rparr>) (cells a))\<lparr>pendingPlayers := pendingPlayers a - 1\<rparr>"
| "handle a (CategoriesLoaded cs) =
     (commit a ((home a)\<lparr>categories := cs\<rparr>) (cells a))
       \<lparr>pendingCategories := pendingCategories a - 1\<rparr>"

text \<open>
  An answer can arrive while its request is pending; an action of the user is possible
  when the screen offers its control. An event that is not possible has no step.
\<close>

fun possible :: "App \<Rightarrow> Event \<Rightarrow> bool" where
  "possible a (PlayersLoaded ps) = (0 < pendingPlayers a)"
| "possible a (CategoriesLoaded cs) = (0 < pendingCategories a)"
| "possible a ev = offers (Home_view (home a) (cells a)) ev"

definition step :: "App \<Rightarrow> Event \<Rightarrow> App option" where
  "step a ev = (if possible a ev then Some (handle a ev) else None)"

fun run :: "App \<Rightarrow> Event list \<Rightarrow> App option" where
  "run a [] = Some a"
| "run a (ev # evs) = (case step a ev of None \<Rightarrow> None | Some a' \<Rightarrow> run a' evs)"

inductive reachable :: "App \<Rightarrow> bool" where
  start: "reachable App_init"
| after: "reachable a \<Longrightarrow> step a ev = Some a' \<Longrightarrow> reachable a'"

text \<open>The events that are actions of the user, as opposed to answers of the server.\<close>

fun user_action :: "Event \<Rightarrow> bool" where
  "user_action (PlayersLoaded ps) = False"
| "user_action (CategoriesLoaded cs) = False"
| "user_action ev = True"

text \<open>The events happen one after the other, and after each of them the cell \<open>k\<close> is rendered.\<close>

fun stays_rendered :: "nat \<times> nat \<Rightarrow> App \<Rightarrow> Event list \<Rightarrow> bool" where
  "stays_rendered k a [] = True"
| "stays_rendered k a (ev # evs) =
     (case step a ev of
        None \<Rightarrow> False
      | Some a' \<Rightarrow> mounted (home a') k \<and> stays_rendered k a' evs)"

subsection \<open>Fixtures\<close>

text \<open>
  Five players and a category list on which the definitions are evaluated below. The
  last two names are \<open>Eric\<close> with a capital and with a small e with acute accent
  (U+00C9, the bytes C3 89, and U+00E9, the bytes C3 A9).
\<close>

definition example_player :: Player where
  "example_player =
     \<lparr>name = ''Scump'', image_p = ''/images/scump.png'', teams = [''OpTic''],
      roles = [''SMG'', ''AR''], kd = Finite (23 / 20), maps_p = [''Hotel'', ''Fortress'']\<rparr>"

definition slasher :: Player where
  "slasher =
     \<lparr>name = ''Slasher'', image_p = ''/images/slasher.png'', teams = [''FaZe''],
      roles = [''AR''], kd = Finite 1, maps_p = [''Fortress'']\<rparr>"

definition shotzzy :: Player where
  "shotzzy =
     \<lparr>name = ''Shotzzy'', image_p = ''/images/shotzzy.png'', teams = [''OpTic''],
      roles = [''SMG''], kd = Finite (21 / 20), maps_p = [''Embassy'', ''Hotel'']\<rparr>"

definition eric_capital :: Player where
  "eric_capital =
     \<lparr>name = [CHR 0xC3, CHR 0x89] @ ''ric'', image_p = ''/images/eric1.png'',
      teams = [''FaZe''], roles = [''Flex''], kd = Finite (6 / 5), maps_p = [''Expo'']\<rparr>"

definition eric_small :: Player where
  "eric_small =
     \<lparr>name = [CHR 0xC3, CHR 0xA9] @ ''ric'', image_p = ''/images/eric2.png'',
      teams = [''OpTic''], roles = [''SMG''], kd = Finite (6 / 5), maps_p = [''Embassy'']\<rparr>"

definition example_players :: "Player list" where
  "example_players = [example_player, slasher, shotzzy, eric_capital, eric_small]"

definition example_categories :: "string list" where
  "example_categories =
     [''Played for OpTic'', ''Played for FaZe'', ''Used AR on Fortress'', ''K/D over 1.1'',
      ''Played SMG on Embassy'', ''Played on Hotel'', ''Flex Role on Expo'',
      ''Used SMG for NYSL'']"

text \<open>
  A game: easy mode, the lists arrive, New Game, easy mode again (its two requests stay
  unanswered), one correct guess and three wrong ones.
\<close>

definition example_game :: "Event list" where
  "example_game =
     [ChooseMode easy, PlayersLoaded example_players, CategoriesLoaded example_categories,
      NewGame, ChooseMode easy,
      Change 0 0 ''scump'', Submit 0 0,
      Change 0 1 ''SCUMP'', Submit 0 1,
      Change 1 1 ''Scump'', Submit 1 1,
      Change 1 0 ''scump'', Submit 1 0]"

text \<open>
  The state after the first nine events of the game, the state after \<open>Stump\<close> is then
  typed into the cell 1-1, and the state after the whole game.
\<close>

definition example_mid :: App where
  "example_mid = the (run App_init (take 9 example_game))"

definition example_typed :: App where
  "example_typed = the (run App_init (take 9 example_game @ [Change 1 1 ''Stump'']))"

definition example_state :: App where
  "example_state = the (run App_init example_game)"

text \<open>
  A game in which three requests for the categories are pending when the third session
  starts: the first answer arrives, a wrong guess resolves the cell 0-1; then, in the
  same session, an answer of four labels and an answer of eight labels arrive, and the
  user types into the cell 0-1 and submits again.
\<close>

definition remount_game :: "Event list" where
  "remount_game =
     [ChooseMode easy, NewGame, ChooseMode easy, NewGame, ChooseMode easy,
      PlayersLoaded example_players, CategoriesLoaded example_categories,
      Change 0 1 ''scump'', Submit 0 1]"

definition remount_events :: "Event list" where
  "remount_events =
     [CategoriesLoaded (take 4 example_categories), CategoriesLoaded example_categories,
      Change 0 1 ''shotzzy'', Submit 0 1]"

definition remount_before :: App where
  "remount_before = the (run App_init remount_game)"

definition remount_after :: App where
  "remount_after = the (run remount_before remount_events)"

section \<open>The condition evaluator\<close>

lemma isCorrectMatch_None [simp]: "isCorrectMatch None c = False"
  by (simp add: isCorrectMatch_def)

lemma isCorrectMatch_empty [simp]: "isCorrectMatch po [] = False"
  by (simp add: isCorrectMatch_def split: option.split)

lemma isCorrectMatch_unknown:
  "c \<notin> set known_conditions \<Longrightarrow> isCorrectMatch po c = False"
  by (simp add: isCorrectMatch_def known_conditions_def split: option.split)

text \<open>
  Claim C1. For every player and each of the nine known condition labels, the evaluator
  returns true exactly when the player's attributes satisfy the rule of the label: team
  membership, role and map, map membership, team and role, a kill/death ratio strictly
  above the double \<^verbatim>\<open>1.1\<close> (so never for that double itself, nor for NaN), and for
  "Played with Scump" membership of OpTic together with a name other than Scump.
\<close>

theorem isCorrectMatch_rules:
  "isCorrectMatch (Some p) ''Played for OpTic'' = (''OpTic'' \<in> set (teams p)) \<and>
   isCorrectMatch (Some p) ''Played for FaZe'' = (''FaZe'' \<in> set (teams p)) \<and>
   isCorrectMatch (Some p) ''Used AR on Fortress'' =
     (''AR'' \<in> set (roles p) \<and> ''Fortress'' \<in> set (maps_p p)) \<and>
   isCorrectMatch (Some p) ''K/D over 1.1'' =
     (case kd p of
        Finite q \<Rightarrow> 2476979795053773 / 2251799813685248 < q
      | PosInf \<Rightarrow> True
      | NegInf \<Rightarrow> False
      | NaN \<Rightarrow> False) \<and>
   isCorrectMatch (Some p) ''Played SMG on Embassy'' =
     (''SMG'' \<in> set (roles p) \<and> ''Embassy'' \<in> set (maps_p p)) \<and>
   isCorrectMatch (Some p) ''Played on Hotel'' = (''Hotel'' \<in> set (maps_p p)) \<and>
   isCorrectMatch (Some p) ''Flex Role on Expo'' =
     (''Flex'' \<in> set (roles p) \<and> ''Expo'' \<in> set (maps_p p)) \<and>
   isCorrectMatch (Some p) ''Used SMG for NYSL'' =
     (''NYSL'' \<in> set (teams p) \<and> ''SMG'' \<in> set (roles p)) \<and>
   isCorrectMatch (Some p) ''Played with Scump'' =
     (''OpTic'' \<in> set (teams p) \<and> name p \<noteq> ''Scump'')"
proof -
  have kd_rule: "gt (kd p) lit_1_1 =
      (case kd p of Finite q \<Rightarrow> 2476979795053773 / 2251799813685248 < q
       | PosInf \<Rightarrow> True | NegInf \<Rightarrow> False | NaN \<Rightarrow> False)"
    by (cases "kd p") (simp_all add: lit_1_1_def)
  show ?thesis
    unfolding kd_rule [symmetric]
    by (simp add: isCorrectMatch_def array_includes_def)
qed

text \<open>
  Claim C4. The evaluator is a total function to the booleans (it has no raising
  branch on a player of the interface's type), and it returns false for a null player,
  for the empty label and for every label outside the nine known phrases.
\<close>

theorem isCorrectMatch_fails_closed:
  "isCorrectMatch None c = False \<and>
   isCorrectMatch po [] = False \<and>
   (c \<notin> set known_conditions \<longrightarrow> isCorrectMatch po c = False)"
  using isCorrectMatch_unknown by simp

theorem isCorrectMatch_fails_closed_witness:
  "''Played for Ghosts'' \<notin> set known_conditions \<and>
   isCorrectMatch (Some example_player) ''Played for Ghosts'' = False \<and>
   isCorrectMatch None ''Played for Ghosts'' = False \<and>
   isCorrectMatch (Some example_player) [] = False"
  using isCorrectMatch_fails_closed [of "''Played for Ghosts''" "Some example_player"]
  by (simp add: known_conditions_def)

section \<open>Labels and the grid\<close>

lemma slice_from_0: "slice xs 0 n = take n xs"
  by (simp add: slice_def)

lemma slice_next: "slice xs n (n * 2) = take n (drop n xs)"
  by (simp add: slice_def)

lemma grid_size_mode: "mode h = Some m \<Longrightarrow> grid_size h = (case m of easy \<Rightarrow> 3 | hard \<Rightarrow> 5)"
  by (cases m) (simp_all add: grid_size_def)

lemma rows_take: "rows h = take (grid_size h) (categories h)"
  by (simp add: rows_def slice_from_0)

lemma cols_take: "cols h = take (grid_size h) (drop (grid_size h) (categories h))"
  by (simp add: cols_def slice_next)

lemma take_as_nths: "n \<le> length xs \<Longrightarrow> take n xs = map (\<lambda>i. xs ! i) [0..<n]"
  by (rule nth_equalityI) simp_all

lemma take_drop_as_nths: "2 * n \<le> length xs \<Longrightarrow> take n (drop n xs) = map (\<lambda>i. xs ! i) [n..<2 * n]"
  by (rule nth_equalityI) simp_all

lemma rows_ignore_from: "grid_size h \<le> i \<Longrightarrow> rows (h\<lparr>categories := (categories h)[i := x]\<rparr>) = rows h"
  by (simp add: rows_take grid_size_def)

lemma cols_ignore_from: "2 * grid_size h \<le> i \<Longrightarrow> cols (h\<lparr>categories := (categories h)[i := x]\<rparr>) = cols h"
  by (simp add: cols_take grid_size_def drop_update_swap)

lemma length_body: "length (body (GameGrid cs rs cl)) = length rs"
  by (simp add: GameGrid_def)

lemma labels_body: "map fst (body (GameGrid cs rs cl)) = rs"
  by (rule nth_equalityI) (simp_all add: GameGrid_def nth_enumerate_eq)

lemma nth_body:
  "i < length rs \<Longrightarrow>
   body (GameGrid cs rs cl) ! i = (rs ! i, map (\<lambda>j. GuessCell_view (cs (i, j))) [0..<length cl])"
  by (auto simp add: GameGrid_def nth_enumerate_eq intro!: nth_equalityI)

lemma cell_at_Home_view:
  "cell_at (Home_view h cs) i j = (if mounted h (i, j) then Some (GuessCell_view (cs (i, j))) else None)"
  by (cases "mode h") (simp_all add: Home_view_def mounted_def length_body nth_body)

lemma has_input_view: "has_input (Some (GuessCell_view c)) = (player c = None)"
  by (cases "player c") (simp_all add: GuessCell_view_def)

lemma offers_cell:
  "has_input (cell_at (Home_view h cs) i j) = (mounted h (i, j) \<and> player (cs (i, j)) = None)"
  by (simp add: cell_at_Home_view has_input_view)

text \<open>
  Claim C5. For a chosen difficulty, with \<open>n = 3\<close> for easy and \<open>n = 5\<close> for hard, the
  row labels are the first \<open>n\<close> categories and the column labels the next \<open>n\<close>: with
  at least \<open>2 * n\<close> categories, those at the indices \<open>0..n-1\<close> and \<open>n..2*n-1\<close>. With
  eight categories and easy difficulty the rows are the indices 0, 1, 2, the columns
  the indices 3, 4, 5, and the category at index 6 is not used: replacing it changes
  neither.
\<close>

theorem deriveLabels_slice:
  assumes "mode h = Some m" and "n = (case m of easy \<Rightarrow> 3 | hard \<Rightarrow> 5)"
  shows "rows h = take n (categories h) \<and>
         cols h = take n (drop n (categories h)) \<and>
         (2 * n \<le> length (categories h) \<longrightarrow>
            rows h = map (\<lambda>i. categories h ! i) [0..<n] \<and>
            cols h = map (\<lambda>i. categories h ! i) [n..<2 * n]) \<and>
         (m = easy \<and> length (categories h) = 8 \<longrightarrow>
            rows h = [categories h ! 0, categories h ! 1, categories h ! 2] \<and>
            cols h = [categories h ! 3, categories h ! 4, categories h ! 5] \<and>
            rows (h\<lparr>categories := (categories h)[6 := x]\<rparr>) = rows h \<and>
            cols (h\<lparr>categories := (categories h)[6 := x]\<rparr>) = cols h)"
proof -
  have size: "grid_size h = n"
    using assms by (simp add: grid_size_mode)
  have r: "rows h = take n (categories h)"
    using size by (simp add: rows_take)
  have c: "cols h = take n (drop n (categories h))"
    using size by (simp add: cols_take)
  have full_r: "rows h = map (\<lambda>i. categories h ! i) [0..<n]"
    if "2 * n \<le> length (categories h)"
    unfolding r by (rule take_as_nths) (use that in simp)
  have full_c: "cols h = map (\<lambda>i. categories h ! i) [n..<2 * n]"
    if "2 * n \<le> length (categories h)"
    unfolding c by (rule take_drop_as_nths) (rule that)
  have eight: "rows h = [categories h ! 0, categories h ! 1, categories h ! 2] \<and>
      cols h = [categories h ! 3, categories h ! 4, categories h ! 5] \<and>
      rows (h\<lparr>categories := (categories h)[6 := x]\<rparr>) = rows h \<and>
      cols (h\<lparr>categories := (categories h)[6 := x]\<rparr>) = cols h"
    if "m = easy" and "length (categories h) = 8"
  proof -
    have n3: "n = 3"
      using assms(2) that(1) by simp
    have u1: "[0..<3] = [0, 1, 2]" and u2: "[3..<2 * 3] = [3, 4, 5]"
      by (simp_all add: upt_rec)
    have "rows h = [categories h ! 0, categories h ! 1, categories h ! 2]"
      using full_r that(2) n3 u1 by simp
    moreover have "cols h = [categories h ! 3, categories h ! 4, categories h ! 5]"
      using full_c that(2) n3 u2 by simp
    moreover have "rows (h\<lparr>categories := (categories h)[6 := x]\<rparr>) = rows h"
      using size n3 by (simp add: rows_ignore_from)
    moreover have "cols (h\<lparr>categories := (categories h)[6 := x]\<rparr>) = cols h"
      using size n3 by (simp add: cols_ignore_from)
    ultimately show ?thesis by simp
  qed
  show ?thesis
    using r c full_r full_c eight by blast
qed

theorem deriveLabels_slice_witness:
  "length example_categories = 8 \<and>
   rows (Home_init\<lparr>categories := example_categories, mode := Some easy\<rparr>) =
     [''Played for OpTic'', ''Played for FaZe'', ''Used AR on Fortress''] \<and>
   cols (Home_init\<lparr>categories := example_categories, mode := Some easy\<rparr>) =
     [''K/D over 1.1'', ''Played SMG on Embassy'', ''Played on Hotel''] \<and>
   rows (Home_init\<lparr>categories := example_categories[6 := ''Played for FaZe''], mode := Some easy\<rparr>) =
     rows (Home_init\<lparr>categories := example_categories, mode := Some easy\<rparr>)"
proof -
  let ?h = "Home_init\<lparr>categories := example_categories, mode := Some easy\<rparr>"
  have m: "mode ?h = Some easy" and n: "3 = (case easy of easy \<Rightarrow> 3 | hard \<Rightarrow> 5)"
    and l: "length (categories ?h) = 8"
    by (simp_all add: example_categories_def)
  from deriveLabels_slice [OF m n, of "''Played for FaZe''"] l
  have "rows ?h = [categories ?h ! 0, categories ?h ! 1, categories ?h ! 2]"
    and "cols ?h = [categories ?h ! 3, categories ?h ! 4, categories ?h ! 5]"
    and "rows (?h\<lparr>categories := (categories ?h)[6 := ''Played for FaZe'']\<rparr>) = rows ?h"
    by blast+
  then show ?thesis
    by (simp add: example_categories_def Home_init_def)
qed

text \<open>
  Claim C7. With fewer than \<open>2 * n\<close> categories the derivation and the render are the
  same total functions (\<^verbatim>\<open>slice\<close> and \<^verbatim>\<open>map\<close> raise nothing): the rows are the first
  \<open>n\<close> categories that exist, the columns whatever is left after them, fewer than
  \<open>n\<close>; the page renders the grid with one row per row label and, in each row, one
  cell per column label.
\<close>

theorem deriveLabels_short:
  assumes "mode h = Some m" and "n = (case m of easy \<Rightarrow> 3 | hard \<Rightarrow> 5)"
    and "length (categories h) < 2 * n"
  shows "rows h = take n (categories h) \<and>
         cols h = drop n (categories h) \<and>
         length (rows h) = min n (length (categories h)) \<and>
         length (cols h) = length (categories h) - n \<and>
         length (cols h) < n \<and>
         Home_view h cs =
           Game m (strikes h)
             (if 3 \<le> strikes h then GameOver else Grid (GameGrid cs (rows h) (cols h))) \<and>
         header (GameGrid cs (rows h) (cols h)) = cols h \<and>
         columns (GameGrid cs (rows h) (cols h)) = length (cols h) + 1 \<and>
         map fst (body (GameGrid cs (rows h) (cols h))) = rows h \<and>
         map (\<lambda>r. length (snd r)) (body (GameGrid cs (rows h) (cols h))) =
           replicate (length (rows h)) (length (cols h))"
proof -
  have size: "grid_size h = n"
    using assms by (simp add: grid_size_mode)
  have pos: "0 < n"
    using assms(2) by (cases m) simp_all
  have r: "rows h = take n (categories h)"
    using size by (simp add: rows_take)
  have c: "cols h = drop n (categories h)"
    using size assms(3) by (simp add: cols_take)
  have lr: "length (rows h) = min n (length (categories h))"
    unfolding r by (simp add: min.commute)
  have lc: "length (cols h) = length (categories h) - n" "length (cols h) < n"
    unfolding c using assms(3) pos by simp_all
  have lens: "map (\<lambda>r. length (snd r)) (body (GameGrid cs (rows h) (cols h))) =
      replicate (length (rows h)) (length (cols h))"
    by (rule nth_equalityI) (simp_all add: length_body nth_body)
  have v: "Home_view h cs =
      Game m (strikes h) (if 3 \<le> strikes h then GameOver else Grid (GameGrid cs (rows h) (cols h)))"
    using assms(1) by (simp add: Home_view_def)
  have g: "header (GameGrid cs (rows h) (cols h)) = cols h"
    "columns (GameGrid cs (rows h) (cols h)) = length (cols h) + 1"
    by (simp_all add: GameGrid_def)
  show ?thesis
    using r c lr lc lens v g labels_body by blast
qed

theorem deriveLabels_short_witness:
  "length (take 4 example_categories) < 2 * 3 \<and>
   rows (Home_init\<lparr>categories := take 4 example_categories, mode := Some easy\<rparr>) =
     [''Played for OpTic'', ''Played for FaZe'', ''Used AR on Fortress''] \<and>
   cols (Home_init\<lparr>categories := take 4 example_categories, mode := Some easy\<rparr>) =
     [''K/D over 1.1''] \<and>
   map (\<lambda>r. length (snd r))
     (body (GameGrid (\<lambda>k. GuessCell_init)
        (rows (Home_init\<lparr>categories := take 4 example_categories, mode := Some easy\<rparr>))
        (cols (Home_init\<lparr>categories := take 4 example_categories, mode := Some easy\<rparr>)))) =
     [1, 1, 1]"
proof -
  let ?h = "Home_init\<lparr>categories := take 4 example_categories, mode := Some easy\<rparr>"
  have m: "mode ?h = Some easy" and n: "3 = (case easy of easy \<Rightarrow> 3 | hard \<Rightarrow> 5)"
    and l: "length (categories ?h) < 2 * 3"
    by (simp_all add: example_categories_def)
  from deriveLabels_short [OF m n l, of "\<lambda>k. GuessCell_init"]
  have "rows ?h = take 3 (categories ?h)" and "cols ?h = drop 3 (categories ?h)"
    and "map (\<lambda>r. length (snd r)) (body (GameGrid (\<lambda>k. GuessCell_init) (rows ?h) (cols ?h))) =
      replicate (length (rows ?h)) (length (cols ?h))"
    by blast+
  then show ?thesis
    by (simp add: example_categories_def Home_init_def numeral_3_eq_3)
qed

section \<open>Resolving a guess\<close>


lemma handleGuess_not_found:
  assumes "find (\<lambda>p. toLowerCase (name p) = toLowerCase (guess cell)) ps = None"
  shows "handleGuess row col ps onStrike (cell, st) = (cell, st)"
  using assms by (simp add: handleGuess_def)


subsection \<open>Lower-casing\<close>

lemma simple_lowercase_ascii:
  assumes "n < 128"
  shows "simple_lowercase n = ascii_lowercase n"
proof -
  obtain rs where t: "lowercase_ranges = (65, 90, 1, 97) # (192, 214, 1, 224) # rs"
    by (simp add: lowercase_ranges_def)
  show ?thesis
    using assms unfolding simple_lowercase_def t by (simp add: ascii_lowercase_def)
qed

lemma utf8_decode_ascii:
  assumes "\<forall>n\<in>set ns. n < 128"
  shows "utf8_decode ns = map Scalar ns"
  using assms by (induction ns) simp_all

lemma toLowercase_ascii:
  assumes "\<forall>n\<in>set ns. n < 128"
  shows "toLowercase pre (map Scalar ns) = map (\<lambda>n. Scalar (ascii_lowercase n)) ns"
  using assms
proof (induction ns arbitrary: pre)
  case Nil
  show ?case by simp
next
  case (Cons n ns)
  then show ?case
    by (simp add: simple_lowercase_ascii)
qed

lemma utf8_encode_ascii:
  assumes "\<forall>n\<in>set ns. n < 128"
  shows "utf8_encode (map (\<lambda>n. Scalar (ascii_lowercase n)) ns) = map ascii_lowercase ns"
  using assms by (induction ns) (simp_all add: utf8_encode_def ascii_lowercase_def)

lemma toLowerCase_ascii:
  assumes "ascii s"
  shows "toLowerCase s = ascii_lower s"
proof -
  have a: "\<forall>n\<in>set (map of_char s). n < (128 :: int)"
    using assms by (simp add: ascii_def list_all_iff)
  show ?thesis
    unfolding toLowerCase_def ascii_lower_def utf8_decode_ascii [OF a] toLowercase_ascii [OF a]
      utf8_encode_ascii [OF a]
    by (simp add: comp_def)
qed

lemma match_ascii:
  assumes "ascii s" and "ascii t"
  shows "(toLowerCase s = toLowerCase t) = (ascii_lower s = ascii_lower t)"
  using assms by (simp add: toLowerCase_ascii)

lemma toLowerCase_examples:
  "toLowerCase ''ABCDEFGHIJKLMNOPQRSTUVWXYZ [@`{ 09'' = ''abcdefghijklmnopqrstuvwxyz [@`{ 09''"
  "toLowerCase ([CHR 0xC3, CHR 0x89] @ ''RIC'') = [CHR 0xC3, CHR 0xA9] @ ''ric''"
  "toLowerCase ''Stump'' \<noteq> toLowerCase ''Scump''"
  "toLowerCase [CHR 0xC4, CHR 0xB0] = [CHR 0x69, CHR 0xCC, CHR 0x87]"
  "toLowerCase [CHR 0xCE, CHR 0x9F, CHR 0xCE, CHR 0xA3, CHR 0xCE, CHR 0xA3] =
     [CHR 0xCE, CHR 0xBF, CHR 0xCF, CHR 0x83, CHR 0xCF, CHR 0x82]"
  by code_simp+


subsection \<open>A guess that matches a player\<close>



section \<open>The page as a state machine\<close>

lemma Home_view_choose: "(Home_view h cs = ChooseDifficulty) = (mode h = None)"
  by (cases "mode h") (simp_all add: Home_view_def)

lemma possible_ChooseMode: "possible a (ChooseMode m) = (mode (home a) = None)"
  by (simp add: Home_view_choose)

lemma possible_NewGame: "possible a NewGame = (mode (home a) \<noteq> None)"
  by (simp add: Home_view_choose)

lemma possible_Change:
  "possible a (Change i j t) = (mounted (home a) (i, j) \<and> player (cells a (i, j)) = None)"
  by (simp add: offers_cell)

lemma possible_Submit:
  "possible a (Submit i j) = (mounted (home a) (i, j) \<and> player (cells a (i, j)) = None)"
  by (simp add: offers_cell)

lemma home_commit: "home (commit a h cs) = h"
  by (simp add: commit_def Let_def)

lemma cells_commit: "cells (commit a h cs) k = (if mounted h k then cs k else GuessCell_init)"
  by (simp add: commit_def Let_def)

lemma pending_commit:
  "pendingPlayers (commit a h cs) =
     pendingPlayers a + (if mode h \<noteq> mode (home a) \<and> mode h \<noteq> None then 1 else 0)"
  "pendingCategories (commit a h cs) =
     pendingCategories a + (if mode h \<noteq> mode (home a) \<and> mode h \<noteq> None then 1 else 0)"
  by (simp_all add: commit_def Let_def)

lemma handleGuess_home:
  "snd (handleGuess r c ps handleStrike (cell, h)) = h \<or>
   snd (handleGuess r c ps handleStrike (cell, h)) = h\<lparr>strikes := strikes h + 1\<rparr>"
  by (simp add: handleGuess_def handleStrike_def Let_def split: option.split)

lemma home_handle_Submit:
  "home (handle a (Submit i j)) =
     snd (handleGuess (rows (home a) ! i) (cols (home a) ! j) (players (home a)) handleStrike
            (cells a (i, j), home a))"
  by (simp add: home_commit split: prod.split)

lemma cells_handle_Submit:
  "cells (handle a (Submit i j)) k =
     (if mounted (home (handle a (Submit i j))) k
      then (if k = (i, j)
            then fst (handleGuess (rows (home a) ! i) (cols (home a) ! j) (players (home a))
                        handleStrike (cells a (i, j), home a))
            else cells a k)
      else GuessCell_init)"
  by (simp add: home_commit cells_commit split: prod.split)

lemma cells_handle_Change:
  "cells (handle a (Change i j t)) k =
     (if mounted (home a) k
      then (if k = (i, j) then (cells a (i, j))\<lparr>guess := t\<rparr> else cells a k)
      else GuessCell_init)"
  by (simp add: cells_commit)

lemma cells_handle_other:
  "cells (handle a (ChooseMode m)) k =
     (if mounted (home (handle a (ChooseMode m))) k then cells a k else GuessCell_init)"
  "cells (handle a NewGame) k = GuessCell_init"
  "cells (handle a (PlayersLoaded ps)) k =
     (if mounted (home (handle a (PlayersLoaded ps))) k then cells a k else GuessCell_init)"
  "cells (handle a (CategoriesLoaded cs)) k =
     (if mounted (home (handle a (CategoriesLoaded cs))) k then cells a k else GuessCell_init)"
  by (simp_all add: home_commit cells_commit mounted_def resetGame_def)

lemma home_Submit_cases:
  "home (handle a (Submit i j)) = home a \<or>
   home (handle a (Submit i j)) = (home a)\<lparr>strikes := strikes (home a) + 1\<rparr>"
  unfolding home_handle_Submit by (rule handleGuess_home)

lemma home_handle_other:
  "home (handle a (ChooseMode m)) = (home a)\<lparr>mode := Some m\<rparr>"
  "home (handle a NewGame) = resetGame (home a)"
  "home (handle a (Change i j t)) = home a"
  "home (handle a (PlayersLoaded ps)) = (home a)\<lparr>players := ps\<rparr>"
  "home (handle a (CategoriesLoaded cs)) = (home a)\<lparr>categories := cs\<rparr>"
  by (simp_all add: home_commit)

declare possible.simps [simp del] handle.simps [simp del]

lemma step_Some: "(step a ev = Some a') = (possible a ev \<and> a' = handle a ev)"
  by (auto simp add: step_def)

lemma step_None: "(step a ev = None) = (\<not> possible a ev)"
  by (simp add: step_def)

lemma step_strikes:
  assumes "step a ev = Some a'"
  shows "strikes (home a') = strikes (home a) \<or>
         (ev = NewGame \<and> strikes (home a') = 0) \<or>
         (\<exists>i j. ev = Submit i j \<and> strikes (home a) < 3 \<and> mode (home a) \<noteq> None \<and>
                strikes (home a') = strikes (home a) + 1)"
proof (cases ev)
  case (Submit i j)
  with assms have p: "possible a (Submit i j)" and a': "a' = handle a (Submit i j)"
    by (simp_all add: step_Some)
  from p have "strikes (home a) < 3" and "mode (home a) \<noteq> None"
    by (simp_all add: possible_Submit mounted_def)
  with home_Submit_cases [of a i j] Submit a' show ?thesis
    by auto
qed (use assms in \<open>auto simp add: step_Some home_handle_other resetGame_def\<close>)

lemma step_mode:
  assumes "step a ev = Some a'"
  shows "mode (home a') = mode (home a) \<or>
         (ev = NewGame \<and> mode (home a') = None \<and> strikes (home a') = 0) \<or>
         (\<exists>m. ev = ChooseMode m \<and> mode (home a) = None \<and> mode (home a') = Some m)"
proof (cases ev)
  case (Submit i j)
  with assms home_Submit_cases [of a i j] show ?thesis
    by (auto simp add: step_Some)
qed (use assms in \<open>auto simp add: step_Some home_handle_other resetGame_def possible_ChooseMode\<close>)

lemma reachable_strikes:
  assumes "reachable a"
  shows "strikes (home a) \<le> 3 \<and> (mode (home a) = None \<longrightarrow> strikes (home a) = 0)"
  using assms
proof (induction rule: reachable.induct)
  case start
  show ?case by (simp add: App_init_def Home_init_def)
next
  case (after a ev a')
  from step_strikes [OF after.hyps(2)] step_mode [OF after.hyps(2)] after.IH
  show ?case by auto
qed

lemma run_reachable: "reachable a \<Longrightarrow> run a evs = Some a' \<Longrightarrow> reachable a'"
proof (induction evs arbitrary: a)
  case Nil
  then show ?case by simp
next
  case (Cons ev evs)
  then show ?case
    by (auto split: option.splits intro: reachable.after)
qed

lemma terminal_run:
  assumes "strikes (home a) = 3" and "run a evs = Some a'" and "NewGame \<notin> set evs"
  shows "strikes (home a') = 3 \<and> Submit i j \<notin> set evs \<and> Change i j t \<notin> set evs"
  using assms
proof (induction evs arbitrary: a)
  case Nil
  then show ?case by simp
next
  case (Cons ev evs)
  from Cons.prems(2) obtain a1 where s: "step a ev = Some a1" and r: "run a1 evs = Some a'"
    by (auto split: option.splits)
  from Cons.prems(3) have ng: "ev \<noteq> NewGame" "NewGame \<notin> set evs"
    by auto
  from step_strikes [OF s] Cons.prems(1) ng(1) have 3: "strikes (home a1) = 3"
    by auto
  from s Cons.prems(1) have "ev \<noteq> Submit i j" "ev \<noteq> Change i j t"
    by (auto simp add: step_Some possible_Submit possible_Change mounted_def)
  with Cons.IH [OF 3 r ng(2)] show ?case
    by simp
qed

lemma terminal_view:
  assumes "reachable a" and "strikes (home a) = 3"
  shows "\<exists>m. mode (home a) = Some m \<and> Home_view (home a) (cells a) = Game m 3 GameOver"
proof -
  from reachable_strikes [OF assms(1)] assms(2) obtain m where "mode (home a) = Some m"
    by (cases "mode (home a)") auto
  with assms(2) show ?thesis
    by (simp add: Home_view_def)
qed

subsection \<open>The example game, evaluated\<close>

lemma example_game_runs:
  "case run App_init example_game of
     None \<Rightarrow> False
   | Some a \<Rightarrow> strikes (home a) = 3 \<and> mode (home a) = Some easy \<and>
       0 < pendingPlayers a \<and> 0 < pendingCategories a"
  by code_simp

lemma example_mid_runs:
  "case run App_init (take 9 example_game) of
     None \<Rightarrow> False
   | Some a \<Rightarrow> strikes (home a) = 1 \<and> mode (home a) = Some easy \<and>
       mounted (home a) (0, 0) \<and>
       cells a (0, 0) = \<lparr>guess = ''scump'', result = Some correct, player = Some example_player\<rparr> \<and>
       cells a (0, 1) = \<lparr>guess = ''SCUMP'', result = Some wrong, player = Some example_player\<rparr> \<and>
       cells a (1, 1) = GuessCell_init \<and>
       players (home a) = example_players \<and> categories (home a) = example_categories"
  by code_simp

lemma example_mid_next:
  "case run example_mid [Change 1 1 ''Scump'', Submit 1 1] of
     None \<Rightarrow> False
   | Some a \<Rightarrow> strikes (home a) = 2 \<and>
       cells a (1, 1) = \<lparr>guess = ''Scump'', result = Some wrong, player = Some example_player\<rparr>"
  by code_simp

lemma example_mid_facts:
  "run App_init (take 9 example_game) = Some example_mid"
  "strikes (home example_mid) = 1"
  "mode (home example_mid) = Some easy"
  "mounted (home example_mid) (0, 0)"
  "cells example_mid (0, 0) =
     \<lparr>guess = ''scump'', result = Some correct, player = Some example_player\<rparr>"
  "cells example_mid (1, 1) = GuessCell_init"
  "players (home example_mid) = example_players"
  "categories (home example_mid) = example_categories"
  using example_mid_runs by (auto simp add: example_mid_def split: option.splits)

subsection \<open>Three strikes\<close>

text \<open>
  Claim C3. In every reachable state the strike count is at most 3. Once it is 3 the
  session is over: the page shows the end-of-game message in place of the grid, no
  cell offers its input or its Submit button, and as long as New Game is not clicked
  the count stays 3, the message stays, and no guess is submitted or typed.
\<close>

theorem three_strikes_terminal:
  assumes "reachable a"
  shows "strikes (home a) \<le> 3 \<and>
     (strikes (home a) = 3 \<longrightarrow>
        (\<exists>m. mode (home a) = Some m \<and> Home_view (home a) (cells a) = Game m 3 GameOver) \<and>
        step a (Submit i j) = None \<and> step a (Change i j t) = None \<and>
        (run a evs = Some a' \<and> NewGame \<notin> set evs \<longrightarrow>
           strikes (home a') = 3 \<and>
           (\<exists>m. Home_view (home a') (cells a') = Game m 3 GameOver) \<and>
           Submit i j \<notin> set evs \<and> Change i j t \<notin> set evs))"
proof -
  have le: "strikes (home a) \<le> 3"
    using reachable_strikes [OF assms] by simp
  have terminal:
    "(\<exists>m. mode (home a) = Some m \<and> Home_view (home a) (cells a) = Game m 3 GameOver) \<and>
     step a (Submit i j) = None \<and> step a (Change i j t) = None \<and>
     (run a evs = Some a' \<and> NewGame \<notin> set evs \<longrightarrow>
        strikes (home a') = 3 \<and>
        (\<exists>m. Home_view (home a') (cells a') = Game m 3 GameOver) \<and>
        Submit i j \<notin> set evs \<and> Change i j t \<notin> set evs)"
    if 3: "strikes (home a) = 3"
  proof -
    have no: "step a (Submit i j) = None" "step a (Change i j t) = None"
      using 3 by (simp_all add: step_None possible_Submit possible_Change mounted_def)
    have later: "strikes (home a') = 3 \<and>
        (\<exists>m. Home_view (home a') (cells a') = Game m 3 GameOver) \<and>
        Submit i j \<notin> set evs \<and> Change i j t \<notin> set evs"
      if r: "run a evs = Some a'" and ng: "NewGame \<notin> set evs"
    proof -
      from terminal_run [OF 3 r ng] have t: "strikes (home a') = 3"
        "Submit i j \<notin> set evs" "Change i j t \<notin> set evs"
        by simp_all
      from terminal_view [OF run_reachable [OF assms r] t(1)] t show ?thesis
        by blast
    qed
    from terminal_view [OF assms 3] no later show ?thesis
      by blast
  qed
  from le terminal show ?thesis
    by blast
qed

theorem three_strikes_terminal_witness:
  "reachable example_state \<and>
   strikes (home example_state) = 3 \<and>
   Home_view (home example_state) (cells example_state) = Game easy 3 GameOver \<and>
   step example_state (Submit 0 0) = None \<and>
   step example_state (Change 0 0 ''Scump'') = None \<and>
   (\<exists>a'. run example_state [PlayersLoaded [], CategoriesLoaded example_categories] = Some a' \<and>
         strikes (home a') = 3 \<and> Home_view (home a') (cells a') = Game easy 3 GameOver)"
proof -
  from example_game_runs have ran: "run App_init example_game = Some example_state"
    and 3: "strikes (home example_state) = 3"
    and m: "mode (home example_state) = Some easy"
    and pend: "0 < pendingPlayers example_state" "0 < pendingCategories example_state"
    by (auto simp add: example_state_def split: option.splits)
  have reach: "reachable example_state"
    using run_reachable [OF reachable.start ran] .
  let ?evs = "[PlayersLoaded [], CategoriesLoaded example_categories]"
  let ?a' = "handle (handle example_state (PlayersLoaded [])) (CategoriesLoaded example_categories)"
  have r: "run example_state ?evs = Some ?a'"
    using pend by (simp add: step_def possible.simps handle.simps commit_def Let_def)
  have ng: "NewGame \<notin> set ?evs"
    by simp
  have m': "mode (home ?a') = Some easy"
    using m by (simp add: home_handle_other)
  from three_strikes_terminal [OF reach, of 0 0 "''Scump''" ?evs ?a'] 3 r ng
  have "step example_state (Submit 0 0) = None" "step example_state (Change 0 0 ''Scump'') = None"
    "\<exists>m. Home_view (home example_state) (cells example_state) = Game m 3 GameOver"
    "strikes (home ?a') = 3" "\<exists>m. Home_view (home ?a') (cells ?a') = Game m 3 GameOver"
    by blast+
  with reach 3 r m m' show ?thesis
    by (auto simp add: Home_view_def)
qed

subsection \<open>Resolved cells\<close>

lemma rows_strikes [simp]: "rows (h\<lparr>strikes := n\<rparr>) = rows h"
  by (simp add: rows_def grid_size_def)

lemma cols_strikes [simp]: "cols (h\<lparr>strikes := n\<rparr>) = cols h"
  by (simp add: cols_def grid_size_def)

lemma cell_kept:
  assumes "step a ev = Some a'" and "mounted (home a') k" and "player (cells a k) \<noteq> None"
  shows "cells a' k = cells a k"
proof (cases ev)
  case (Submit i j)
  with assms(1) have p: "possible a (Submit i j)" and a': "a' = handle a (Submit i j)"
    by (simp_all add: step_Some)
  from p assms(3) have "k \<noteq> (i, j)"
    by (auto simp add: possible_Submit)
  with assms(2) a' show ?thesis
    by (simp add: cells_handle_Submit)
next
  case (Change i j t)
  with assms(1) have p: "possible a (Change i j t)" and a': "a' = handle a (Change i j t)"
    by (simp_all add: step_Some)
  from p assms(3) have "k \<noteq> (i, j)"
    by (auto simp add: possible_Change)
  with assms(2) a' show ?thesis
    by (simp add: cells_handle_Change home_handle_other)
next
  case NewGame
  with assms(1,2) show ?thesis
    by (simp add: step_Some home_handle_other resetGame_def mounted_def)
qed (use assms in \<open>auto simp add: step_Some cells_handle_other\<close>)

lemma user_step_mounted:
  assumes "step a ev = Some a'" and "user_action ev" and "ev \<noteq> NewGame"
    and "mounted (home a) k" and "strikes (home a') < 3"
  shows "mounted (home a') k"
proof (cases ev)
  case (Submit i j)
  with assms(1) have a': "a' = handle a (Submit i j)"
    by (simp add: step_Some)
  from home_Submit_cases [of a i j] assms(4,5) show ?thesis
    unfolding a' by (auto simp add: mounted_def)
next
  case (ChooseMode m)
  with assms(1,4) show ?thesis
    by (simp add: step_Some possible_ChooseMode mounted_def)
qed (use assms in \<open>auto simp add: step_Some home_handle_other\<close>)

lemma run_strikes_mono:
  assumes "run a evs = Some a'" and "NewGame \<notin> set evs"
  shows "strikes (home a) \<le> strikes (home a')"
  using assms
proof (induction evs arbitrary: a)
  case Nil
  then show ?case by simp
next
  case (Cons ev evs)
  from Cons.prems(1) obtain a1 where s: "step a ev = Some a1" and r: "run a1 evs = Some a'"
    by (auto split: option.splits)
  from step_strikes [OF s] Cons.prems(2) have "strikes (home a) \<le> strikes (home a1)"
    by auto
  with Cons.IH [OF r] Cons.prems(2) show ?case
    by simp
qed

lemma resolved_run:
  assumes "mounted (home a) k" and "player (cells a k) \<noteq> None"
    and "run a evs = Some a'" and "list_all user_action evs" and "NewGame \<notin> set evs"
    and "strikes (home a') < 3"
  shows "cells a' k = cells a k \<and> mounted (home a') k \<and>
         Submit (fst k) (snd k) \<notin> set evs \<and> Change (fst k) (snd k) t \<notin> set evs"
  using assms
proof (induction evs arbitrary: a)
  case Nil
  then show ?case by simp
next
  case (Cons ev evs)
  from Cons.prems(3) obtain a1 where s: "step a ev = Some a1" and r: "run a1 evs = Some a'"
    by (auto split: option.splits)
  from Cons.prems(4,5) have u: "user_action ev" "list_all user_action evs"
    and ng: "ev \<noteq> NewGame" "NewGame \<notin> set evs"
    by auto
  from run_strikes_mono [OF r ng(2)] Cons.prems(6) have lt: "strikes (home a1) < 3"
    by simp
  have m1: "mounted (home a1) k"
    using user_step_mounted [OF s u(1) ng(1) Cons.prems(1) lt] .
  have c1: "cells a1 k = cells a k"
    using cell_kept [OF s m1 Cons.prems(2)] .
  from s Cons.prems(1,2) have "ev \<noteq> Submit (fst k) (snd k)" "ev \<noteq> Change (fst k) (snd k) t"
    by (auto simp add: step_Some possible_Submit possible_Change)
  moreover from Cons.IH [OF m1 _ r u(2) ng(2) Cons.prems(6)] c1 Cons.prems(2)
  have "cells a' k = cells a k \<and> mounted (home a') k \<and>
      Submit (fst k) (snd k) \<notin> set evs \<and> Change (fst k) (snd k) t \<notin> set evs"
    by simp
  ultimately show ?case
    by simp
qed

lemma resolved_while_rendered:
  assumes "player (cells a k) \<noteq> None" and "run a evs = Some a'" and "stays_rendered k a evs"
  shows "cells a' k = cells a k \<and>
         Submit (fst k) (snd k) \<notin> set evs \<and> Change (fst k) (snd k) t \<notin> set evs"
  using assms
proof (induction evs arbitrary: a)
  case Nil
  then show ?case by simp
next
  case (Cons ev evs)
  from Cons.prems(2) obtain a1 where s: "step a ev = Some a1" and r: "run a1 evs = Some a'"
    by (auto split: option.splits)
  from Cons.prems(3) s have m1: "mounted (home a1) k" and st: "stays_rendered k a1 evs"
    by simp_all
  have c1: "cells a1 k = cells a k"
    using cell_kept [OF s m1 Cons.prems(1)] .
  from s Cons.prems(1) have "ev \<noteq> Submit (fst k) (snd k)" "ev \<noteq> Change (fst k) (snd k) t"
    by (auto simp add: step_Some possible_Submit possible_Change)
  moreover from Cons.IH [OF _ r st] c1 Cons.prems(1)
  have "cells a' k = cells a k \<and>
      Submit (fst k) (snd k) \<notin> set evs \<and> Change (fst k) (snd k) t \<notin> set evs"
    by simp
  ultimately show ?case
    by simp
qed

text \<open>
  Claim C9, amended. A resolved cell is terminal for as long as it stays rendered. It
  offers neither its input nor its Submit button; whatever happens, a step or a whole
  run after which it is still rendered leaves its player and its outcome as they are,
  and no such run submits to it or types into it; and no sequence of actions of the
  user within the session (no New Game, fewer than three strikes at its end) unmounts
  it. What the claim says fails only across an unmount within the session: answers of
  the server that change the number of labels can remove the cell and render an empty
  cell in its place, which the user can guess again.
\<close>

theorem resolved_cell_is_terminal:
  assumes "mounted (home a) (i, j)" and "player (cells a (i, j)) = Some p"
  shows "step a (Submit i j) = None \<and> step a (Change i j t) = None \<and>
     (step a ev = Some a1 \<and> mounted (home a1) (i, j) \<longrightarrow> cells a1 (i, j) = cells a (i, j)) \<and>
     (run a evs = Some a' \<and> list_all user_action evs \<and> NewGame \<notin> set evs \<and>
      strikes (home a') < 3 \<longrightarrow>
        cells a' (i, j) = cells a (i, j) \<and> mounted (home a') (i, j) \<and>
        Submit i j \<notin> set evs \<and> Change i j t \<notin> set evs) \<and>
     (run a evs2 = Some a2 \<and> stays_rendered (i, j) a evs2 \<longrightarrow>
        cells a2 (i, j) = cells a (i, j) \<and>
        Submit i j \<notin> set evs2 \<and> Change i j t \<notin> set evs2)"
proof -
  from assms(2) have res: "player (cells a (i, j)) \<noteq> None"
    by simp
  have "step a (Submit i j) = None" "step a (Change i j t) = None"
    using res by (simp_all add: step_None possible_Submit possible_Change)
  moreover have "cells a1 (i, j) = cells a (i, j)"
    if "step a ev = Some a1" and "mounted (home a1) (i, j)"
    using cell_kept [OF that res] .
  moreover have "cells a' (i, j) = cells a (i, j) \<and> mounted (home a') (i, j) \<and>
        Submit i j \<notin> set evs \<and> Change i j t \<notin> set evs"
    if "run a evs = Some a'" and "list_all user_action evs" and "NewGame \<notin> set evs"
      and "strikes (home a') < 3"
    using resolved_run [OF assms(1) res that, of t] by simp
  moreover have "cells a2 (i, j) = cells a (i, j) \<and>
        Submit i j \<notin> set evs2 \<and> Change i j t \<notin> set evs2"
    if "run a evs2 = Some a2" and "stays_rendered (i, j) a evs2"
    using resolved_while_rendered [OF res that, of t] by simp
  ultimately show ?thesis
    by blast
qed

lemma example_mid_answer:
  "case run example_mid [CategoriesLoaded (rev example_categories), Change 1 1 ''Scump'',
       Submit 1 1] of
     None \<Rightarrow> False
   | Some a \<Rightarrow> strikes (home a) = 2 \<and> rows (home a) = take 3 (rev example_categories) \<and>
       stays_rendered (0, 0) example_mid
         [CategoriesLoaded (rev example_categories), Change 1 1 ''Scump'', Submit 1 1]"
  by code_simp

theorem resolved_cell_is_terminal_witness:
  "mounted (home example_mid) (0, 0) \<and>
   player (cells example_mid (0, 0)) = Some example_player \<and>
   step example_mid (Submit 0 0) = None \<and>
   step example_mid (Change 0 0 ''Shotzzy'') = None \<and>
   (\<exists>a'. run example_mid [Change 1 1 ''Scump'', Submit 1 1] = Some a' \<and>
         strikes (home a') = 2 \<and>
         cells a' (0, 0) =
           \<lparr>guess = ''scump'', result = Some correct, player = Some example_player\<rparr>) \<and>
   (\<exists>a2. run example_mid
           [CategoriesLoaded (rev example_categories), Change 1 1 ''Scump'', Submit 1 1] =
           Some a2 \<and>
         stays_rendered (0, 0) example_mid
           [CategoriesLoaded (rev example_categories), Change 1 1 ''Scump'', Submit 1 1] \<and>
         rows (home a2) = take 3 (rev example_categories) \<and>
         cells a2 (0, 0) =
           \<lparr>guess = ''scump'', result = Some correct, player = Some example_player\<rparr>)"
proof -
  note f = example_mid_facts
  have p: "player (cells example_mid (0, 0)) = Some example_player"
    by (simp add: f)
  let ?evs = "[Change 1 1 ''Scump'', Submit 1 1]"
  let ?evs2 = "[CategoriesLoaded (rev example_categories), Change 1 1 ''Scump'', Submit 1 1]"
  from example_mid_next obtain a' where r: "run example_mid ?evs = Some a'"
    and s: "strikes (home a') = 2"
    by (auto split: option.splits)
  from example_mid_answer obtain a2 where r2: "run example_mid ?evs2 = Some a2"
    and s2: "rows (home a2) = take 3 (rev example_categories)"
    and k2: "stays_rendered (0, 0) example_mid ?evs2"
    by (auto split: option.splits)
  have u: "list_all user_action ?evs" and ng: "NewGame \<notin> set ?evs"
    and lt: "strikes (home a') < 3"
    using s by simp_all
  from resolved_cell_is_terminal [OF f(4) p, of "''Shotzzy''" _ _ ?evs a' ?evs2 a2] r u ng lt r2 k2
  have "step example_mid (Submit 0 0) = None" "step example_mid (Change 0 0 ''Shotzzy'') = None"
    "cells a' (0, 0) = cells example_mid (0, 0)" "cells a2 (0, 0) = cells example_mid (0, 0)"
    by blast+
  with f(4) p r s r2 s2 k2 show ?thesis
    by (simp add: f)
qed

subsection \<open>A cell that is unmounted and rendered again\<close>

text \<open>
  Within one session a resolved cell can be replaced by an empty one. In the game below
  the cell 0-1 is resolved wrong with Scump; an answer of four labels leaves the grid
  with one column, so the cell is unmounted; an answer of eight labels renders a cell
  0-1 again, empty; the user submits Shotzzy to it and it is resolved correct. No New
  Game is clicked in between and the strike count stays 1.
\<close>

lemma remount_game_runs:
  "case run App_init remount_game of
     None \<Rightarrow> False
   | Some a \<Rightarrow> mode (home a) = Some easy \<and> strikes (home a) = 1 \<and> mounted (home a) (0, 1) \<and>
       cells a (0, 1) =
         \<lparr>guess = ''scump'', result = Some wrong, player = Some example_player\<rparr>"
  by code_simp

lemma remount_events_run:
  "case run remount_before remount_events of
     None \<Rightarrow> False
   | Some a \<Rightarrow> mode (home a) = Some easy \<and> strikes (home a) = 1 \<and> mounted (home a) (0, 1) \<and>
       cells a (0, 1) = \<lparr>guess = ''shotzzy'', result = Some correct, player = Some shotzzy\<rparr>"
  by code_simp

theorem resolved_cell_is_terminal_counterexample:
  "reachable remount_before \<and>
   mode (home remount_before) = Some easy \<and> strikes (home remount_before) = 1 \<and>
   mounted (home remount_before) (0, 1) \<and>
   cells remount_before (0, 1) =
     \<lparr>guess = ''scump'', result = Some wrong, player = Some example_player\<rparr> \<and>
   run remount_before remount_events = Some remount_after \<and>
   NewGame \<notin> set remount_events \<and> Submit 0 1 \<in> set remount_events \<and>
   mode (home remount_after) = Some easy \<and> strikes (home remount_after) = 1 \<and>
   mounted (home remount_after) (0, 1) \<and>
   cells remount_after (0, 1) =
     \<lparr>guess = ''shotzzy'', result = Some correct, player = Some shotzzy\<rparr>"
proof -
  from remount_game_runs have b: "run App_init remount_game = Some remount_before"
    "mode (home remount_before) = Some easy" "strikes (home remount_before) = 1"
    "mounted (home remount_before) (0, 1)"
    "cells remount_before (0, 1) =
      \<lparr>guess = ''scump'', result = Some wrong, player = Some example_player\<rparr>"
    by (auto simp add: remount_before_def split: option.splits)
  from remount_events_run have a: "run remount_before remount_events = Some remount_after"
    "mode (home remount_after) = Some easy" "strikes (home remount_after) = 1"
    "mounted (home remount_after) (0, 1)"
    "cells remount_after (0, 1) =
      \<lparr>guess = ''shotzzy'', result = Some correct, player = Some shotzzy\<rparr>"
    by (auto simp add: remount_after_def split: option.splits)
  have reach: "reachable remount_before"
    using run_reachable [OF reachable.start b(1)] .
  have "NewGame \<notin> set remount_events" "Submit 0 1 \<in> set remount_events"
    by (simp_all add: remount_events_def)
  with reach a b show ?thesis
    by simp
qed

section \<open>Reset, and guesses that match no player\<close>

lemma mounted_reset [simp]: "\<not> mounted (resetGame h) k"
  by (simp add: mounted_def resetGame_def)

text \<open>
  Claim C8. \<^verbatim>\<open>resetGame\<close> sets the strike count to 0 and the difficulty to unset. In
  any state of the page, reachable or not, a click on New Game (offered whenever a
  difficulty is set) leaves every cell in its initial state and the page on the
  difficulty screen; the cells are still in their initial state once a difficulty is
  chosen again.
\<close>

theorem reset_clears_session:
  "strikes (resetGame h) = 0 \<and> mode (resetGame h) = None \<and>
   home (handle a NewGame) = resetGame (home a) \<and>
   cells (handle a NewGame) k = GuessCell_init \<and>
   Home_view (home (handle a NewGame)) (cells (handle a NewGame)) = ChooseDifficulty \<and>
   cells (handle (handle a NewGame) (ChooseMode m)) k = GuessCell_init \<and>
   strikes (home (handle (handle a NewGame) (ChooseMode m))) = 0 \<and>
   step (handle a NewGame) (ChooseMode m) = Some (handle (handle a NewGame) (ChooseMode m)) \<and>
   (mode (home a) \<noteq> None \<longrightarrow> step a NewGame = Some (handle a NewGame))"
proof -
  have r: "strikes (resetGame h) = 0" "mode (resetGame h) = None" for h
    by (simp_all add: resetGame_def)
  have h: "home (handle a NewGame) = resetGame (home a)"
    and c: "cells (handle a NewGame) k = GuessCell_init" for k
    by (simp_all add: home_handle_other cells_handle_other)
  have v: "Home_view (home (handle a NewGame)) (cells (handle a NewGame)) = ChooseDifficulty"
    by (simp add: Home_view_choose h r)
  have c2: "cells (handle (handle a NewGame) (ChooseMode m)) k = GuessCell_init"
    by (simp add: cells_handle_other)
  have s2: "strikes (home (handle (handle a NewGame) (ChooseMode m))) = 0"
    by (simp add: home_handle_other r)
  have p2: "step (handle a NewGame) (ChooseMode m) = Some (handle (handle a NewGame) (ChooseMode m))"
    by (simp add: step_Some possible_ChooseMode h r)
  have p1: "step a NewGame = Some (handle a NewGame)" if "mode (home a) \<noteq> None"
    using that by (simp add: step_Some possible_NewGame)
  from r h c v c2 s2 p2 p1 show ?thesis
    by blast
qed

theorem reset_clears_session_witness:
  "reachable example_mid \<and>
   mode (home example_mid) \<noteq> None \<and> strikes (home example_mid) = 1 \<and>
   player (cells example_mid (0, 0)) = Some example_player \<and>
   step example_mid NewGame = Some (handle example_mid NewGame) \<and>
   strikes (home (handle example_mid NewGame)) = 0 \<and>
   mode (home (handle example_mid NewGame)) = None \<and>
   cells (handle example_mid NewGame) (0, 0) = GuessCell_init \<and>
   Home_view (home (handle example_mid NewGame)) (cells (handle example_mid NewGame)) =
     ChooseDifficulty"
proof -
  note f = example_mid_facts
  have reach: "reachable example_mid"
    using run_reachable [OF reachable.start f(1)] .
  from reset_clears_session [of "home example_mid" example_mid "(0, 0)" easy] f(3)
  have "step example_mid NewGame = Some (handle example_mid NewGame)"
    "strikes (resetGame (home example_mid)) = 0" "mode (resetGame (home example_mid)) = None"
    "home (handle example_mid NewGame) = resetGame (home example_mid)"
    "cells (handle example_mid NewGame) (0, 0) = GuessCell_init"
    "Home_view (home (handle example_mid NewGame)) (cells (handle example_mid NewGame)) =
      ChooseDifficulty"
    by blast+
  with reach show ?thesis
    by (simp add: f)
qed

text \<open>
  Claim C10. \<^verbatim>\<open>resetGame\<close> changes the difficulty and the strike count only: the player
  list and the category list stay as they are. After New Game and a new choice of
  difficulty the page renders the grid from the old category list, two more requests
  are pending, and each list is replaced when an answer to its request arrives.
\<close>

theorem reset_keeps_lists:
  assumes "step a NewGame = Some a1" and "step a1 (ChooseMode m) = Some a2"
  shows "players (resetGame h) = players h \<and> categories (resetGame h) = categories h \<and>
     home a1 = (home a)\<lparr>mode := None, strikes := 0\<rparr> \<and>
     pendingPlayers a1 = pendingPlayers a \<and> pendingCategories a1 = pendingCategories a \<and>
     home a2 = (home a)\<lparr>mode := Some m, strikes := 0\<rparr> \<and>
     players (home a2) = players (home a) \<and> categories (home a2) = categories (home a) \<and>
     rows (home a2) = take (case m of easy \<Rightarrow> 3 | hard \<Rightarrow> 5) (categories (home a)) \<and>
     cols (home a2) =
       take (case m of easy \<Rightarrow> 3 | hard \<Rightarrow> 5)
         (drop (case m of easy \<Rightarrow> 3 | hard \<Rightarrow> 5) (categories (home a))) \<and>
     Home_view (home a2) (cells a2) =
       Game m 0 (Grid (GameGrid (cells a2) (rows (home a2)) (cols (home a2)))) \<and>
     pendingPlayers a2 = pendingPlayers a + 1 \<and>
     pendingCategories a2 = pendingCategories a + 1 \<and>
     (step a2 (PlayersLoaded ps) = Some a3 \<longrightarrow>
        players (home a3) = ps \<and> categories (home a3) = categories (home a)) \<and>
     (step a2 (CategoriesLoaded cs) = Some a4 \<longrightarrow>
        categories (home a4) = cs \<and> players (home a4) = players (home a))"
proof -
  from assms have a1: "a1 = handle a NewGame" and a2: "a2 = handle a1 (ChooseMode m)"
    by (simp_all add: step_Some)
  have r: "players (resetGame h) = players h" "categories (resetGame h) = categories h"
    by (simp_all add: resetGame_def)
  have h1: "home a1 = (home a)\<lparr>mode := None, strikes := 0\<rparr>"
    by (simp add: a1 home_handle_other resetGame_def)
  have p1: "pendingPlayers a1 = pendingPlayers a" "pendingCategories a1 = pendingCategories a"
    by (simp_all add: a1 handle.simps pending_commit resetGame_def)
  have h2: "home a2 = (home a)\<lparr>mode := Some m, strikes := 0\<rparr>"
    by (simp add: a2 home_handle_other h1)
  have l2: "players (home a2) = players (home a)" "categories (home a2) = categories (home a)"
    by (simp_all add: h2)
  have m2: "mode (home a2) = Some m"
    by (simp add: h2)
  have rc: "rows (home a2) = take (case m of easy \<Rightarrow> 3 | hard \<Rightarrow> 5) (categories (home a))"
    "cols (home a2) =
       take (case m of easy \<Rightarrow> 3 | hard \<Rightarrow> 5)
         (drop (case m of easy \<Rightarrow> 3 | hard \<Rightarrow> 5) (categories (home a)))"
    by (simp_all add: rows_take cols_take grid_size_mode [OF m2] l2)
  have v: "Home_view (home a2) (cells a2) =
       Game m 0 (Grid (GameGrid (cells a2) (rows (home a2)) (cols (home a2))))"
    by (simp add: Home_view_def h2)
  have p2: "pendingPlayers a2 = pendingPlayers a + 1"
    "pendingCategories a2 = pendingCategories a + 1"
    by (simp_all add: a2 handle.simps pending_commit h1 p1)
  have f3: "players (home a3) = ps \<and> categories (home a3) = categories (home a)"
    if "step a2 (PlayersLoaded ps) = Some a3"
    using that l2 by (simp add: step_Some home_handle_other)
  have f4: "categories (home a4) = cs \<and> players (home a4) = players (home a)"
    if "step a2 (CategoriesLoaded cs) = Some a4"
    using that l2 by (simp add: step_Some home_handle_other)
  from r h1 p1 h2 l2 rc v p2 f3 f4 show ?thesis
    by blast
qed

theorem reset_keeps_lists_witness:
  "step example_mid NewGame = Some (handle example_mid NewGame) \<and>
   step (handle example_mid NewGame) (ChooseMode hard) =
     Some (handle (handle example_mid NewGame) (ChooseMode hard)) \<and>
   players (home (handle (handle example_mid NewGame) (ChooseMode hard))) = example_players \<and>
   categories (home (handle (handle example_mid NewGame) (ChooseMode hard))) =
     example_categories \<and>
   rows (home (handle (handle example_mid NewGame) (ChooseMode hard))) =
     [''Played for OpTic'', ''Played for FaZe'', ''Used AR on Fortress'', ''K/D over 1.1'',
      ''Played SMG on Embassy''] \<and>
   cols (home (handle (handle example_mid NewGame) (ChooseMode hard))) =
     [''Played on Hotel'', ''Flex Role on Expo'', ''Used SMG for NYSL''] \<and>
   step (handle (handle example_mid NewGame) (ChooseMode hard)) (CategoriesLoaded []) =
     Some (handle (handle (handle example_mid NewGame) (ChooseMode hard)) (CategoriesLoaded [])) \<and>
   categories (home (handle (handle (handle example_mid NewGame) (ChooseMode hard))
     (CategoriesLoaded []))) = []"
proof -
  note f = example_mid_facts
  let ?a1 = "handle example_mid NewGame"
  let ?a2 = "handle ?a1 (ChooseMode hard)"
  let ?a3 = "handle ?a2 (PlayersLoaded [])"
  let ?a4 = "handle ?a2 (CategoriesLoaded [])"
  have s1: "step example_mid NewGame = Some ?a1"
    by (simp add: step_Some possible_NewGame f)
  have s2: "step ?a1 (ChooseMode hard) = Some ?a2"
    by (simp add: step_Some possible_ChooseMode home_handle_other resetGame_def)
  note t = reset_keeps_lists [OF s1 s2, of "home example_mid" "[]" ?a3 "[]" ?a4]
  from t have pc: "pendingCategories ?a2 = pendingCategories example_mid + 1"
    by blast
  have s4: "step ?a2 (CategoriesLoaded []) = Some ?a4"
    using pc by (simp add: step_Some possible.simps)
  from t s4 have "players (home ?a2) = players (home example_mid)"
    "categories (home ?a2) = categories (home example_mid)"
    "rows (home ?a2) = take 5 (categories (home example_mid))"
    "cols (home ?a2) = take 5 (drop 5 (categories (home example_mid)))"
    "categories (home ?a4) = []"
    by auto
  with s1 s2 s4 show ?thesis
    by (simp add: f example_categories_def)
qed

text \<open>
  Claim C6. A submitted guess whose text equals, after lower-casing, the lower-cased
  name of no player is ignored: the handler changes neither the cell nor the state
  behind the callback. On the page, the strike count and the rest of the session state
  are unchanged and the cell still shows its input. A name and a guess of ASCII
  characters differ after lower-casing exactly when they differ by more than the case
  of their letters.
\<close>

theorem handleGuess_no_match:
  assumes "\<forall>p\<in>set ps. toLowerCase (name p) \<noteq> toLowerCase (guess cell)"
  shows "handleGuess row col ps onStrike (cell, st) = (cell, st) \<and>
     (possible a (Submit i j) \<and> ps = players (home a) \<and> cell = cells a (i, j) \<longrightarrow>
        step a (Submit i j) = Some (handle a (Submit i j)) \<and>
        home (handle a (Submit i j)) = home a \<and>
        cells (handle a (Submit i j)) (i, j) = cell \<and>
        player cell = None \<and>
        cell_at (Home_view (home (handle a (Submit i j))) (cells (handle a (Submit i j)))) i j =
          Some (InputAndSubmit (guess cell))) \<and>
     (ascii (name q) \<and> ascii (guess cell) \<longrightarrow>
        (toLowerCase (name q) \<noteq> toLowerCase (guess cell)) =
        (ascii_lower (name q) \<noteq> ascii_lower (guess cell)))"
proof -
  have "find (\<lambda>p. toLowerCase (name p) = toLowerCase (guess cell)) ps = None"
    using assms by (simp add: find_None_iff)
  then have same: "handleGuess row col ps onStrike (cell, st) = (cell, st)" for row col onStrike st
    by (rule handleGuess_not_found)
  have page: "step a (Submit i j) = Some (handle a (Submit i j)) \<and>
        home (handle a (Submit i j)) = home a \<and>
        cells (handle a (Submit i j)) (i, j) = cell \<and>
        player cell = None \<and>
        cell_at (Home_view (home (handle a (Submit i j))) (cells (handle a (Submit i j)))) i j =
          Some (InputAndSubmit (guess cell))"
    if p: "possible a (Submit i j)" and ps: "ps = players (home a)" and c: "cell = cells a (i, j)"
  proof -
    from p have mo: "mounted (home a) (i, j)" and em: "player cell = None"
      by (simp_all add: possible_Submit c)
    have h: "home (handle a (Submit i j)) = home a"
      by (simp add: home_handle_Submit ps [symmetric] c [symmetric] same)
    have k: "cells (handle a (Submit i j)) (i, j) = cell"
      by (simp add: cells_handle_Submit h mo ps [symmetric] c [symmetric] same)
    have "cell_at (Home_view (home (handle a (Submit i j))) (cells (handle a (Submit i j)))) i j =
          Some (InputAndSubmit (guess cell))"
      by (simp add: cell_at_Home_view h mo k GuessCell_view_def em)
    with p h k em show ?thesis
      by (simp add: step_Some)
  qed
  from same [of row col onStrike st] page match_ascii [of "name q" "guess cell"]
  show ?thesis
    by blast
qed

lemma example_typed_runs:
  "case run App_init (take 9 example_game @ [Change 1 1 ''Stump'']) of
     None \<Rightarrow> False
   | Some a \<Rightarrow> strikes (home a) = 1 \<and> players (home a) = example_players \<and>
       possible a (Submit 1 1) \<and>
       cells a (1, 1) = \<lparr>guess = ''Stump'', result = None, player = None\<rparr>"
  by code_simp

lemma example_no_match:
  "\<forall>p\<in>set example_players. toLowerCase (name p) \<noteq> toLowerCase ''Stump''"
  by code_simp

theorem handleGuess_no_match_witness:
  "list_all (\<lambda>p. toLowerCase (name p) \<noteq> toLowerCase ''Stump'') example_players \<and>
   ascii (name example_player) \<and> ascii ''Stump'' \<and>
   ascii_lower (name example_player) \<noteq> ascii_lower ''Stump'' \<and>
   players (home example_typed) = example_players \<and>
   cells example_typed (1, 1) = \<lparr>guess = ''Stump'', result = None, player = None\<rparr> \<and>
   possible example_typed (Submit 1 1) \<and>
   step example_typed (Submit 1 1) = Some (handle example_typed (Submit 1 1)) \<and>
   home (handle example_typed (Submit 1 1)) = home example_typed \<and>
   strikes (home (handle example_typed (Submit 1 1))) = 1 \<and>
   cells (handle example_typed (Submit 1 1)) (1, 1) =
     \<lparr>guess = ''Stump'', result = None, player = None\<rparr> \<and>
   handleGuess ''Played for FaZe'' ''Played on Hotel'' example_players handleStrike
       (\<lparr>guess = ''Stump'', result = None, player = None\<rparr>, Home_init) =
     (\<lparr>guess = ''Stump'', result = None, player = None\<rparr>, Home_init)"
proof -
  let ?cell = "\<lparr>guess = ''Stump'', result = None, player = None\<rparr>"
  from example_typed_runs have f: "strikes (home example_typed) = 1"
    "players (home example_typed) = example_players"
    "possible example_typed (Submit 1 1)"
    "cells example_typed (1, 1) = ?cell"
    by (auto simp add: example_typed_def split: option.splits)
  from example_no_match
  have no: "\<forall>p\<in>set example_players. toLowerCase (name p) \<noteq> toLowerCase (guess ?cell)"
    by simp
  from example_no_match
  have all: "list_all (\<lambda>p. toLowerCase (name p) \<noteq> toLowerCase ''Stump'') example_players"
    by (simp add: list_all_iff)
  have a: "ascii (name example_player)" "ascii ''Stump''"
    by code_simp+
  have d: "ascii_lower (name example_player) \<noteq> ascii_lower ''Stump''"
    using handleGuess_no_match [OF no, where q = example_player and row = "[]" and col = "[]"
        and onStrike = handleStrike and st = Home_init and a = example_typed and i = 1 and j = 1,
        THEN conjunct2, THEN conjunct2] a example_no_match
    by (simp add: example_players_def)
  from handleGuess_no_match [OF no, where row = "''Played for FaZe''"
      and col = "''Played on Hotel''" and onStrike = handleStrike and st = Home_init
      and a = example_typed and i = 1 and j = 1 and q = example_player] f
  have "handleGuess ''Played for FaZe'' ''Played on Hotel'' example_players handleStrike
       (?cell, Home_init) = (?cell, Home_init)"
    "step example_typed (Submit 1 1) = Some (handle example_typed (Submit 1 1))"
    "home (handle example_typed (Submit 1 1)) = home example_typed"
    "cells (handle example_typed (Submit 1 1)) (1, 1) = ?cell"
    by auto
  with all f a d show ?thesis
    by simp
qed

end
